theory Spec2Isabelle
  imports Main
begin

section \<open>JavaScript values\<close>

text \<open>
  The two clients are TypeScript modules that run as JavaScript: their request
  configurations, parameter sets, headers and signatures are plain objects, built with
  object literals and object spread. The embedding keeps that shape. A value is
  \<open>undefined\<close>, \<open>null\<close>, a boolean, a number, a string or an object; an object is the list
  of its own enumerable properties in enumeration order. Numbers are the integers
  (timestamps, timeouts and lengths are the only numbers the program computes with; a
  product such as \<open>Date.now() * 1000\<close> is the exact integer product, which is what the
  IEEE double gives for every clock value below \<open>2^53 / 1000\<close> milliseconds).
\<close>

datatype jsval =
    JUndefined
  | JNull
  | JBool bool
  | JNum int
  | JStr string
  | JObj "(string \<times> jsval) list"

type_synonym jsobj = "(string \<times> jsval) list"

text \<open>\<open>ToBoolean\<close>: what \<open>!x\<close>, \<open>x ? a : b\<close> and \<open>x || y\<close> test.\<close>

fun truthy :: "jsval \<Rightarrow> bool" where
  "truthy JUndefined = False"
| "truthy JNull = False"
| "truthy (JBool b) = b"
| "truthy (JNum n) = (n \<noteq> 0)"
| "truthy (JStr s) = (s \<noteq> [])"
| "truthy (JObj ps) = True"

text \<open>\<open>a || b\<close> is \<open>a\<close> when \<open>a\<close> is truthy and \<open>b\<close> otherwise.\<close>

definition js_or :: "jsval \<Rightarrow> jsval \<Rightarrow> jsval" where
  "js_or a b = (if truthy a then a else b)"

text \<open>
  Decimal rendering of a natural number, of an integer (\<open>Number.prototype.toString\<close> on
  an integer), and \<open>ToString\<close> as a template literal applies it to an interpolated value.
\<close>

fun dec :: "nat \<Rightarrow> string" where
  "dec n = (if n < 10 then [''0123456789'' ! n]
            else dec (n div 10) @ [''0123456789'' ! (n mod 10)])"

declare dec.simps [simp del]

definition num_toString :: "int \<Rightarrow> string" where
  "num_toString i = (if i < 0 then CHR ''-'' # dec (nat (- i)) else dec (nat i))"

fun js_toString :: "jsval \<Rightarrow> string" where
  "js_toString JUndefined = ''undefined''"
| "js_toString JNull = ''null''"
| "js_toString (JBool b) = (if b then ''true'' else ''false'')"
| "js_toString (JNum n) = num_toString n"
| "js_toString (JStr s) = s"
| "js_toString (JObj ps) = ''[object Object]''"

subsection \<open>Objects: property order, definition, spread, reads\<close>

text \<open>
  An ordinary object enumerates its array-index keys first, in ascending numeric order,
  and then its other string keys in the order they were created. A key is an array index
  when it is the canonical decimal form of an integer below \<open>2^32 - 1\<close>.
\<close>

definition is_digit :: "char \<Rightarrow> bool" where
  "is_digit c = (c \<in> set ''0123456789'')"

definition digit_val :: "char \<Rightarrow> nat" where
  "digit_val c = of_char c - 48"

definition array_index :: "string \<Rightarrow> nat option" where
  "array_index k =
     (if k \<noteq> [] \<and> list_all is_digit k
      then (let n = foldl (\<lambda>a c. 10 * a + digit_val c) 0 k
            in if dec n = k \<and> n < 4294967295 then Some n else None)
      else None)"

text \<open>
  \<open>set_prop k v obj\<close> is the effect of one property definition in an object literal
  (\<open>k: v\<close>, or one property copied by a spread): an existing key keeps its position and
  takes the new value; a new array-index key goes to its numeric position; any other new
  key goes last.
\<close>

fun replace_prop :: "string \<Rightarrow> jsval \<Rightarrow> jsobj \<Rightarrow> jsobj" where
  "replace_prop k v [] = []"
| "replace_prop k v ((k', v') # ps) =
     (if k' = k then (k, v) # ps else (k', v') # replace_prop k v ps)"

fun insert_index :: "nat \<Rightarrow> string \<Rightarrow> jsval \<Rightarrow> jsobj \<Rightarrow> jsobj" where
  "insert_index n k v [] = [(k, v)]"
| "insert_index n k v ((k', v') # ps) =
     (case array_index k' of
        Some m \<Rightarrow> if m < n then (k', v') # insert_index n k v ps
                  else (k, v) # (k', v') # ps
      | None \<Rightarrow> (k, v) # (k', v') # ps)"

definition set_prop :: "string \<Rightarrow> jsval \<Rightarrow> jsobj \<Rightarrow> jsobj" where
  "set_prop k v ps =
     (if k \<in> fst ` set ps then replace_prop k v ps
      else case array_index k of
             Some n \<Rightarrow> insert_index n k v ps
           | None \<Rightarrow> ps @ [(k, v)])"

text \<open>
  \<open>{...target, ...src}\<close> copies the own enumerable properties of \<open>src\<close> one by one.
  \<open>undefined\<close>, \<open>null\<close>, booleans and numbers have none; a string has its characters
  under the keys \<open>0\<close>, \<open>1\<close>, ...
\<close>

fun own_props :: "jsval \<Rightarrow> jsobj" where
  "own_props (JObj ps) = ps"
| "own_props (JStr s) = map (\<lambda>i. (dec i, JStr [s ! i])) [0..<length s]"
| "own_props v = []"

definition spread :: "jsobj \<Rightarrow> jsval \<Rightarrow> jsobj" where
  "spread target src = foldl (\<lambda>obj (k, v). set_prop k v obj) target (own_props src)"

text \<open>
  Property reads. \<open>lookup_prop\<close> reads a property of an object (\<open>undefined\<close> when it is
  missing). \<open>get_prop\<close> reads a property of any value: on \<open>undefined\<close> and \<open>null\<close> the read
  throws a \<open>TypeError\<close> (the result \<open>None\<close>); a boolean, number or string has none of the
  properties this program reads (\<open>type\<close>, \<open>response\<close>, \<open>data\<close>, \<open>error\<close>).
\<close>

definition lookup_prop :: "jsobj \<Rightarrow> string \<Rightarrow> jsval" where
  "lookup_prop ps k = (case map_of ps k of None \<Rightarrow> JUndefined | Some v \<Rightarrow> v)"

fun get_prop :: "jsval \<Rightarrow> string \<Rightarrow> jsval option" where
  "get_prop JUndefined k = None"
| "get_prop JNull k = None"
| "get_prop (JObj ps) k = Some (lookup_prop ps k)"
| "get_prop v k = Some JUndefined"

text \<open>The property names of an object are pairwise distinct.\<close>

definition wf_obj :: "jsval \<Rightarrow> bool" where
  "wf_obj v = distinct (map fst (own_props v))"

section \<open>Collaborators and call results\<close>

text \<open>
  The program calls four libraries: \<open>qs.stringify\<close> (the query-string encoder),
  \<open>JSON.stringify\<close>, \<open>crypto.createHmac(alg, key).update(msg).digest('hex')\<close> with
  \<open>Buffer(..).toString('base64')\<close>, and the HTTP transport \<open>axios\<close>. None of them is code
  of this repository, so each is a parameter: every theorem holds for whatever these
  functions compute. The transport answers a request configuration with a response
  (\<open>Inr\<close>) or fails with the error it throws (\<open>Inl\<close>).
\<close>

datatype hash_alg = sha384 | sha512

record env =
  qs_stringify :: "jsval \<Rightarrow> string"
  JSON_stringify :: "jsval \<Rightarrow> string"
  base64 :: "string \<Rightarrow> string"
  hmac_hex :: "hash_alg \<Rightarrow> string \<Rightarrow> string \<Rightarrow> string"
  axios :: "jsobj \<Rightarrow> jsval + jsval"

text \<open>\<open>JSON.stringify(undefined)\<close> is \<open>undefined\<close>, not a string.\<close>

definition JSON_stringify_val :: "env \<Rightarrow> jsval \<Rightarrow> jsval" where
  "JSON_stringify_val e v = (if v = JUndefined then JUndefined else JStr (JSON_stringify e v))"

text \<open>
  Every endpoint method is an \<open>async\<close> function: it returns a promise that resolves with
  a response or rejects with a reason; an exception thrown inside the body (here only a
  \<open>TypeError\<close> of a property read) rejects the promise with that exception. A call's
  result records how the promise settles, the request configurations handed to the
  transport, in order, and the client after the call.
\<close>

datatype rejection = Reason jsval | TypeError

datatype outcome = Resolved jsval | Rejected rejection

record 'c call =
  settled :: outcome
  requests :: "jsobj list"
  client :: 'c

record IApiAuth =
  publicKey :: string
  privateKey :: string

text \<open>
  The data of a client: the optional \<open>auth\<close> field (\<open>None\<close>: no \<open>ApiAuth\<close> is set, the
  field is \<open>undefined\<close>). The Gemini
  client and the Bittrex raw agent hold the same single field, and their \<open>isUpgraded\<close>
  and \<open>upgrade\<close> methods are the same text in both files.
\<close>

record agent =
  auth :: "IApiAuth option"

text \<open>\<open>isUpgraded(): boolean { return this.auth; }\<close> returns the field itself.\<close>

definition isUpgraded :: "agent \<Rightarrow> IApiAuth option" where
  "isUpgraded c = auth c"

text \<open>The JavaScript value of the field: \<open>undefined\<close>, or the object with the two keys.\<close>

definition auth_value :: "IApiAuth option \<Rightarrow> jsval" where
  "auth_value x =
     (case x of
        None \<Rightarrow> JUndefined
      | Some a \<Rightarrow> JObj [(''publicKey'', JStr (publicKey a)), (''privateKey'', JStr (privateKey a))])"

definition upgrade :: "agent \<Rightarrow> IApiAuth \<Rightarrow> agent" where
  "upgrade c newAuth = c\<lparr>auth := Some newAuth\<rparr>"

definition unauthenticated :: rejection where
  "unauthenticated = Reason (JStr ''api keys are required to access private endpoints'')"

text \<open>
  The \<open>catch\<close> block of both private dispatchers:
  \<open>err.response.data.error || err.response.data || err.response || err\<close>. The first
  operand reads three properties in turn, and each read throws on \<open>undefined\<close>/\<open>null\<close>.
\<close>

definition rejectionReason :: "jsval \<Rightarrow> rejection" where
  "rejectionReason err =
     (case get_prop err ''response'' of
        None \<Rightarrow> TypeError
      | Some response \<Rightarrow>
          (case get_prop response ''data'' of
             None \<Rightarrow> TypeError
           | Some body \<Rightarrow>
               (case get_prop body ''error'' of
                  None \<Rightarrow> TypeError
                | Some error \<Rightarrow> Reason (js_or error (js_or body (js_or response err))))))"

section \<open>The Gemini client (src/index.ts)\<close>

definition gemini_defaultConfig :: jsobj where
  "gemini_defaultConfig =
     [(''rootUrl'', JStr ''https://api.gemini.com''),
      (''timeout'', JNum 10000),
      (''version'', JStr ''v1'')]"

definition gemini_defaultAgentConfig :: jsobj where
  "gemini_defaultAgentConfig =
     [(''baseURL'', lookup_prop gemini_defaultConfig ''rootUrl''),
      (''headers'', JObj
         [(''Cache-Control'', JStr ''no-cache''),
          (''Content-Length'', JNum 0),
          (''Content-Type'', JStr ''text/plain''),
          (''User-Agent'', JStr ''Gemini API Client (gemini-api node package)'')]),
      (''method'', JStr ''GET''),
      (''timeout'', lookup_prop gemini_defaultConfig ''timeout'')]"

definition gemini_publicAgentConfig :: jsobj where
  "gemini_publicAgentConfig = spread [] (JObj gemini_defaultAgentConfig)"

definition gemini_privateAgentConfig :: jsobj where
  "gemini_privateAgentConfig =
     set_prop ''method'' (JStr ''POST'') (spread [] (JObj gemini_defaultAgentConfig))"

text \<open>
  \<open>signMessage\<close> reads the clock (\<open>Date.now()\<close>, here the argument \<open>now\<close>). Its local
  \<open>body = { ...postData, nonce, request: path }\<close> is a definition of its own.
\<close>

definition gemini_signMessage_body :: "int \<Rightarrow> string \<Rightarrow> jsval \<Rightarrow> jsobj" where
  "gemini_signMessage_body now path postData =
     (let nonce = num_toString now
      in set_prop ''request'' (JStr path) (set_prop ''nonce'' (JStr nonce) (spread [] postData)))"

definition gemini_signMessage :: "env \<Rightarrow> int \<Rightarrow> string \<Rightarrow> jsval \<Rightarrow> string \<Rightarrow> jsobj" where
  "gemini_signMessage e now path postData secret =
     (let body = gemini_signMessage_body now path postData;
          payload = base64 e (JSON_stringify e (JObj body));
          digest = hmac_hex e sha384 secret payload
      in [(''payload'', JStr payload), (''digest'', JStr digest)])"

definition gemini_getClient :: "IApiAuth option \<Rightarrow> agent" where
  "gemini_getClient a = \<lparr>auth = a\<rparr>"

definition gemini_config :: "jsval \<Rightarrow> jsobj" where
  "gemini_config configOverride = spread (spread [] (JObj gemini_defaultConfig)) configOverride"

text \<open>The local \<open>agentConfig\<close> of \<open>getPublicEndpoint\<close> (with \<open>config\<close> and \<open>uri\<close>).\<close>

definition gemini_getPublicEndpoint_agentConfig ::
  "env \<Rightarrow> string \<Rightarrow> jsval \<Rightarrow> jsval \<Rightarrow> jsobj" where
  "gemini_getPublicEndpoint_agentConfig e endpoint queryParams configOverride =
     (let config = gemini_config configOverride;
          uri = js_toString (lookup_prop config ''version'') @ ''/'' @ endpoint @ ''?''
                @ qs_stringify e queryParams
      in set_prop ''url'' (JStr uri) (spread [] (JObj gemini_publicAgentConfig)))"

definition gemini_getPublicEndpoint ::
  "env \<Rightarrow> agent \<Rightarrow> string \<Rightarrow> jsval \<Rightarrow> jsval \<Rightarrow> agent call" where
  "gemini_getPublicEndpoint e c endpoint queryParams configOverride =
     (let agentConfig = gemini_getPublicEndpoint_agentConfig e endpoint queryParams configOverride
      in case axios e agentConfig of
           Inr response \<Rightarrow>
             \<lparr>settled = Resolved response, requests = [agentConfig], client = c\<rparr>
         | Inl err \<Rightarrow>
             \<lparr>settled = Rejected (Reason err), requests = [agentConfig], client = c\<rparr>)"

text \<open>The locals \<open>uri\<close>, \<open>signatureData\<close>, \<open>headers\<close> and \<open>agentConfig\<close> of
  \<open>postToPrivateEndpoint\<close>, for the credentials \<open>a\<close> found in \<open>this.auth\<close>.\<close>

definition postToPrivateEndpoint_uri :: "string \<Rightarrow> jsval \<Rightarrow> string" where
  "postToPrivateEndpoint_uri endpoint configOverride =
     ''/'' @ js_toString (lookup_prop (gemini_config configOverride) ''version'') @ ''/'' @ endpoint"

definition postToPrivateEndpoint_signatureData ::
  "env \<Rightarrow> int \<Rightarrow> IApiAuth \<Rightarrow> string \<Rightarrow> jsval \<Rightarrow> jsval \<Rightarrow> jsobj" where
  "postToPrivateEndpoint_signatureData e now a endpoint data configOverride =
     gemini_signMessage e now (postToPrivateEndpoint_uri endpoint configOverride) data (privateKey a)"

definition postToPrivateEndpoint_headers ::
  "env \<Rightarrow> int \<Rightarrow> IApiAuth \<Rightarrow> string \<Rightarrow> jsval \<Rightarrow> jsval \<Rightarrow> jsobj" where
  "postToPrivateEndpoint_headers e now a endpoint data configOverride =
     (let signatureData = postToPrivateEndpoint_signatureData e now a endpoint data configOverride
      in set_prop ''X-GEMINI-SIGNATURE'' (lookup_prop signatureData ''digest'')
           (set_prop ''X-GEMINI-PAYLOAD'' (lookup_prop signatureData ''payload'')
              (set_prop ''X-GEMINI-APIKEY'' (JStr (publicKey a))
                 (spread [] (lookup_prop gemini_privateAgentConfig ''headers'')))))"

definition postToPrivateEndpoint_agentConfig ::
  "env \<Rightarrow> int \<Rightarrow> IApiAuth \<Rightarrow> string \<Rightarrow> jsval \<Rightarrow> jsval \<Rightarrow> jsobj" where
  "postToPrivateEndpoint_agentConfig e now a endpoint data configOverride =
     set_prop ''data'' (JSON_stringify_val e data)
       (set_prop ''url'' (JStr (postToPrivateEndpoint_uri endpoint configOverride))
          (set_prop ''headers''
             (JObj (postToPrivateEndpoint_headers e now a endpoint data configOverride))
             (spread [] (JObj gemini_privateAgentConfig))))"

definition postToPrivateEndpoint ::
  "env \<Rightarrow> int \<Rightarrow> agent \<Rightarrow> string \<Rightarrow> jsval \<Rightarrow> jsval \<Rightarrow> agent call" where
  "postToPrivateEndpoint e now c endpoint data configOverride =
     (case isUpgraded c of
        None \<Rightarrow> \<lparr>settled = Rejected unauthenticated, requests = [], client = c\<rparr>
      | Some a \<Rightarrow>
          (let agentConfig = postToPrivateEndpoint_agentConfig e now a endpoint data configOverride
           in case axios e agentConfig of
                Inr response \<Rightarrow>
                  \<lparr>settled = Resolved response, requests = [agentConfig], client = c\<rparr>
              | Inl err \<Rightarrow>
                  \<lparr>settled = Rejected (rejectionReason err), requests = [agentConfig],
                   client = c\<rparr>))"

section \<open>The Bittrex client (src/unnamed/part_000)\<close>

definition bittrex_defaultConfig :: jsobj where
  "bittrex_defaultConfig =
     [(''rootUrl'', JStr ''https://bittrex.com/api''),
      (''timeout'', JNum 3000),
      (''version'', JStr ''v1.1'')]"

definition bittrex_defaultAgentConfig :: jsobj where
  "bittrex_defaultAgentConfig =
     [(''baseURL'', lookup_prop bittrex_defaultConfig ''rootUrl''),
      (''headers'', JObj
         [(''Cache-Control'', JStr ''no-cache''),
          (''Content-Type'', JStr ''application/json''),
          (''User-Agent'',
             JStr ''Bittrex API Client (bittrex-cryptoexchange-api node package)'')]),
      (''method'', JStr ''GET''),
      (''timeout'', lookup_prop bittrex_defaultConfig ''timeout'')]"

definition bittrex_publicAgentConfig :: jsobj where
  "bittrex_publicAgentConfig = spread [] (JObj bittrex_defaultAgentConfig)"

definition bittrex_privateAgentConfig :: jsobj where
  "bittrex_privateAgentConfig = spread [] (JObj bittrex_defaultAgentConfig)"

definition bittrex_signMessage :: "env \<Rightarrow> string \<Rightarrow> jsval \<Rightarrow> string \<Rightarrow> jsobj" where
  "bittrex_signMessage e fullPath queryParams secret =
     (let uri = fullPath @ ''?'' @ qs_stringify e queryParams;
          digest = hmac_hex e sha512 secret uri
      in [(''fullUrl'', JStr uri), (''digest'', JStr digest)])"

definition getRawAgent :: "IApiAuth option \<Rightarrow> agent" where
  "getRawAgent a = \<lparr>auth = a\<rparr>"

definition bittrex_config :: "jsval \<Rightarrow> jsobj" where
  "bittrex_config configOverride = spread (spread [] (JObj bittrex_defaultConfig)) configOverride"

text \<open>The local \<open>agentConfig\<close> of \<open>getPublicEndpoint\<close> (with \<open>config\<close> and \<open>uri\<close>).\<close>

definition bittrex_getPublicEndpoint_agentConfig ::
  "env \<Rightarrow> string \<Rightarrow> jsval \<Rightarrow> jsval \<Rightarrow> jsobj" where
  "bittrex_getPublicEndpoint_agentConfig e endpoint queryParams configOverride =
     (let config = bittrex_config configOverride;
          uri = js_toString (lookup_prop config ''version'') @ ''/'' @ endpoint @ ''?''
                @ qs_stringify e queryParams
      in spread (set_prop ''url'' (JStr uri) (spread [] (JObj bittrex_publicAgentConfig)))
           (JObj config))"

definition bittrex_getPublicEndpoint ::
  "env \<Rightarrow> agent \<Rightarrow> string \<Rightarrow> jsval \<Rightarrow> jsval \<Rightarrow> agent call" where
  "bittrex_getPublicEndpoint e c endpoint queryParams configOverride =
     (let agentConfig = bittrex_getPublicEndpoint_agentConfig e endpoint queryParams configOverride
      in case axios e agentConfig of
           Inr response \<Rightarrow>
             \<lparr>settled = Resolved response, requests = [agentConfig], client = c\<rparr>
         | Inl err \<Rightarrow>
             \<lparr>settled = Rejected (Reason err), requests = [agentConfig], client = c\<rparr>)"

text \<open>The locals of \<open>getPrivateEndpoint\<close>, for the credentials \<open>a\<close> found in
  \<open>this.auth\<close> and the clock value \<open>now\<close>.\<close>

definition getPrivateEndpoint_uri :: "string \<Rightarrow> jsval \<Rightarrow> string" where
  "getPrivateEndpoint_uri endpoint configOverride =
     (let config = bittrex_config configOverride
      in js_toString (lookup_prop config ''rootUrl'') @ ''/''
         @ js_toString (lookup_prop config ''version'') @ ''/'' @ endpoint)"

definition getPrivateEndpoint_securityParams :: "int \<Rightarrow> IApiAuth \<Rightarrow> jsobj" where
  "getPrivateEndpoint_securityParams now a =
     [(''apiKey'', JStr (publicKey a)), (''nonce'', JNum (now * 1000))]"

definition getPrivateEndpoint_scrubbedParams :: "int \<Rightarrow> IApiAuth \<Rightarrow> jsval \<Rightarrow> jsobj" where
  "getPrivateEndpoint_scrubbedParams now a params =
     spread (spread [] params) (JObj (getPrivateEndpoint_securityParams now a))"

definition getPrivateEndpoint_signatureData ::
  "env \<Rightarrow> int \<Rightarrow> IApiAuth \<Rightarrow> string \<Rightarrow> jsval \<Rightarrow> jsval \<Rightarrow> jsobj" where
  "getPrivateEndpoint_signatureData e now a endpoint params configOverride =
     bittrex_signMessage e (getPrivateEndpoint_uri endpoint configOverride)
       (JObj (getPrivateEndpoint_scrubbedParams now a params)) (privateKey a)"

definition getPrivateEndpoint_headers ::
  "env \<Rightarrow> int \<Rightarrow> IApiAuth \<Rightarrow> string \<Rightarrow> jsval \<Rightarrow> jsval \<Rightarrow> jsobj" where
  "getPrivateEndpoint_headers e now a endpoint params configOverride =
     (let config = bittrex_config configOverride;
          signatureData = getPrivateEndpoint_signatureData e now a endpoint params configOverride;
          headersOverride =
            (if truthy (lookup_prop config ''headers'') then lookup_prop config ''headers''
             else JNull)
      in spread
           (set_prop ''apisign'' (lookup_prop signatureData ''digest'')
              (spread [] (lookup_prop bittrex_privateAgentConfig ''headers'')))
           headersOverride)"

definition getPrivateEndpoint_agentConfig ::
  "env \<Rightarrow> int \<Rightarrow> IApiAuth \<Rightarrow> string \<Rightarrow> jsval \<Rightarrow> jsval \<Rightarrow> jsobj" where
  "getPrivateEndpoint_agentConfig e now a endpoint params configOverride =
     (let config = bittrex_config configOverride;
          signatureData = getPrivateEndpoint_signatureData e now a endpoint params configOverride;
          headers = getPrivateEndpoint_headers e now a endpoint params configOverride
      in spread
           (set_prop ''url'' (lookup_prop signatureData ''fullUrl'')
              (set_prop ''headers'' (JObj headers) (spread [] (JObj bittrex_privateAgentConfig))))
           (JObj config))"

definition getPrivateEndpoint ::
  "env \<Rightarrow> int \<Rightarrow> agent \<Rightarrow> string \<Rightarrow> jsval \<Rightarrow> jsval \<Rightarrow> agent call" where
  "getPrivateEndpoint e now c endpoint params configOverride =
     (case isUpgraded c of
        None \<Rightarrow> \<lparr>settled = Rejected unauthenticated, requests = [], client = c\<rparr>
      | Some a \<Rightarrow>
          (let agentConfig = getPrivateEndpoint_agentConfig e now a endpoint params configOverride
           in case axios e agentConfig of
                Inr response \<Rightarrow>
                  \<lparr>settled = Resolved response, requests = [agentConfig], client = c\<rparr>
              | Inl err \<Rightarrow>
                  \<lparr>settled = Rejected (rejectionReason err), requests = [agentConfig],
                   client = c\<rparr>))"

subsection \<open>The typed endpoint catalog\<close>

text \<open>
  \<open>getClient(auth, configOverride = null)\<close> holds a raw agent and closes over
  \<open>configOverride\<close>; every operation forwards to the raw agent with a fixed endpoint. A
  string argument \<open>s\<close> is the value \<open>JStr s\<close>; an optional one that is left out is
  \<open>undefined\<close>.
\<close>

record IBittrexClient =
  rawAgent :: agent
  configOverride :: jsval

definition bittrex_getClient :: "IApiAuth option \<Rightarrow> jsval \<Rightarrow> IBittrexClient" where
  "bittrex_getClient a override =
     \<lparr>rawAgent = getRawAgent a,
      configOverride = (if override = JUndefined then JNull else override)\<rparr>"

definition client_isUpgraded :: "IBittrexClient \<Rightarrow> IApiAuth option" where
  "client_isUpgraded c = isUpgraded (rawAgent c)"

definition client_upgrade :: "IBittrexClient \<Rightarrow> IApiAuth \<Rightarrow> IBittrexClient" where
  "client_upgrade c newAuth = c\<lparr>rawAgent := upgrade (rawAgent c) newAuth\<rparr>"

definition forward :: "IBittrexClient \<Rightarrow> agent call \<Rightarrow> IBittrexClient call" where
  "forward c r =
     \<lparr>settled = settled r, requests = requests r, client = c\<lparr>rawAgent := client r\<rparr>\<rparr>"

definition optional :: "string option \<Rightarrow> jsval" where
  "optional s = (case s of None \<Rightarrow> JUndefined | Some x \<Rightarrow> JStr x)"

definition getMarkets :: "env \<Rightarrow> IBittrexClient \<Rightarrow> IBittrexClient call" where
  "getMarkets e c =
     forward c (bittrex_getPublicEndpoint e (rawAgent c) ''public/getmarkets'' JNull
                  (configOverride c))"

definition getCurrencies :: "env \<Rightarrow> IBittrexClient \<Rightarrow> IBittrexClient call" where
  "getCurrencies e c =
     forward c (bittrex_getPublicEndpoint e (rawAgent c) ''public/getcurrencies'' JNull
                  (configOverride c))"

definition getTickerTape :: "env \<Rightarrow> IBittrexClient \<Rightarrow> string \<Rightarrow> IBittrexClient call" where
  "getTickerTape e c marketSymbol =
     forward c (bittrex_getPublicEndpoint e (rawAgent c) ''public/getticker''
                  (JObj [(''market'', JStr marketSymbol)]) (configOverride c))"

definition getMarketSummaries :: "env \<Rightarrow> IBittrexClient \<Rightarrow> IBittrexClient call" where
  "getMarketSummaries e c =
     forward c (bittrex_getPublicEndpoint e (rawAgent c) ''public/getmarketsummaries'' JNull
                  (configOverride c))"

definition getMarketSummary :: "env \<Rightarrow> IBittrexClient \<Rightarrow> string \<Rightarrow> IBittrexClient call" where
  "getMarketSummary e c marketSymbol =
     forward c (bittrex_getPublicEndpoint e (rawAgent c) ''public/getmarketsummary''
                  (JObj [(''market'', JStr marketSymbol)]) (configOverride c))"

text \<open>
  \<open>getOrderBook\<close> builds \<open>{ ...params, type: params.type ? params.type : 'both' }\<close>; the
  read \<open>params.type\<close> throws when \<open>params\<close> is \<open>undefined\<close> or \<open>null\<close>.
\<close>

definition getOrderBook_scrubbedParams :: "jsval \<Rightarrow> jsval \<Rightarrow> jsobj" where
  "getOrderBook_scrubbedParams params type =
     set_prop ''type'' (if truthy type then type else JStr ''both'') (spread [] params)"

definition getOrderBook :: "env \<Rightarrow> IBittrexClient \<Rightarrow> jsval \<Rightarrow> IBittrexClient call" where
  "getOrderBook e c params =
     (case get_prop params ''type'' of
        None \<Rightarrow> \<lparr>settled = Rejected TypeError, requests = [], client = c\<rparr>
      | Some type \<Rightarrow>
          forward c (bittrex_getPublicEndpoint e (rawAgent c) ''public/getorderbook''
                       (JObj (getOrderBook_scrubbedParams params type)) (configOverride c)))"

definition getMarketHistory :: "env \<Rightarrow> IBittrexClient \<Rightarrow> string \<Rightarrow> IBittrexClient call" where
  "getMarketHistory e c marketSymbol =
     forward c (bittrex_getPublicEndpoint e (rawAgent c) ''public/getmarkethistory''
                  (JObj [(''market'', JStr marketSymbol)]) (configOverride c))"

definition placeLimitBuy ::
  "env \<Rightarrow> int \<Rightarrow> IBittrexClient \<Rightarrow> jsval \<Rightarrow> IBittrexClient call" where
  "placeLimitBuy e now c params =
     forward c (getPrivateEndpoint e now (rawAgent c) ''market/buylimit'' params
                  (configOverride c))"

definition placeLimitSell ::
  "env \<Rightarrow> int \<Rightarrow> IBittrexClient \<Rightarrow> jsval \<Rightarrow> IBittrexClient call" where
  "placeLimitSell e now c params =
     forward c (getPrivateEndpoint e now (rawAgent c) ''market/selllimit'' params
                  (configOverride c))"

definition cancelOrder ::
  "env \<Rightarrow> int \<Rightarrow> IBittrexClient \<Rightarrow> string \<Rightarrow> IBittrexClient call" where
  "cancelOrder e now c orderId =
     forward c (getPrivateEndpoint e now (rawAgent c) ''market/cancel''
                  (JObj [(''uuid'', JStr orderId)]) (configOverride c))"

definition getOpenOrders ::
  "env \<Rightarrow> int \<Rightarrow> IBittrexClient \<Rightarrow> string option \<Rightarrow> IBittrexClient call" where
  "getOpenOrders e now c marketSymbol =
     forward c (getPrivateEndpoint e now (rawAgent c) ''market/getopenorders''
                  (JObj [(''market'', optional marketSymbol)]) (configOverride c))"

definition getAccountBalances :: "env \<Rightarrow> int \<Rightarrow> IBittrexClient \<Rightarrow> IBittrexClient call" where
  "getAccountBalances e now c =
     forward c (getPrivateEndpoint e now (rawAgent c) ''account/getbalances'' JNull
                  (configOverride c))"

definition getBalance ::
  "env \<Rightarrow> int \<Rightarrow> IBittrexClient \<Rightarrow> string \<Rightarrow> IBittrexClient call" where
  "getBalance e now c currencyId =
     forward c (getPrivateEndpoint e now (rawAgent c) ''account/getbalance''
                  (JObj [(''currency'', JStr currencyId)]) (configOverride c))"

definition getDepositAddress ::
  "env \<Rightarrow> int \<Rightarrow> IBittrexClient \<Rightarrow> string \<Rightarrow> IBittrexClient call" where
  "getDepositAddress e now c currencyId =
     forward c (getPrivateEndpoint e now (rawAgent c) ''account/getdepositaddress''
                  (JObj [(''currency'', JStr currencyId)]) (configOverride c))"

definition withdrawCrypto ::
  "env \<Rightarrow> int \<Rightarrow> IBittrexClient \<Rightarrow> jsval \<Rightarrow> IBittrexClient call" where
  "withdrawCrypto e now c params =
     forward c (getPrivateEndpoint e now (rawAgent c) ''account/withdraw'' params
                  (configOverride c))"

definition getOrder ::
  "env \<Rightarrow> int \<Rightarrow> IBittrexClient \<Rightarrow> string \<Rightarrow> IBittrexClient call" where
  "getOrder e now c orderId =
     forward c (getPrivateEndpoint e now (rawAgent c) ''account/getorder''
                  (JObj [(''uuid'', JStr orderId)]) (configOverride c))"

definition getOrderHistory ::
  "env \<Rightarrow> int \<Rightarrow> IBittrexClient \<Rightarrow> string option \<Rightarrow> IBittrexClient call" where
  "getOrderHistory e now c marketSymbol =
     forward c (getPrivateEndpoint e now (rawAgent c) ''account/getorderhistory''
                  (JObj [(''market'', optional marketSymbol)]) (configOverride c))"

definition getWithdrawalHistory ::
  "env \<Rightarrow> int \<Rightarrow> IBittrexClient \<Rightarrow> string option \<Rightarrow> IBittrexClient call" where
  "getWithdrawalHistory e now c currencyId =
     forward c (getPrivateEndpoint e now (rawAgent c) ''account/getwithdrawalhistory''
                  (JObj [(''currency'', optional currencyId)]) (configOverride c))"

definition getDepositHistory ::
  "env \<Rightarrow> int \<Rightarrow> IBittrexClient \<Rightarrow> string option \<Rightarrow> IBittrexClient call" where
  "getDepositHistory e now c currencyId =
     forward c (getPrivateEndpoint e now (rawAgent c) ''account/getdeposithistory''
                  (JObj [(''currency'', optional currencyId)]) (configOverride c))"

section \<open>Stand-ins for evaluating the program\<close>

text \<open>
  To run the definitions on concrete inputs the collaborators need concrete values. These
  stand-ins keep their arguments visible in the result: the encoder writes \<open>k=v\<close> for
  each property, joined by \<open>&\<close> and without escaping; base64 and the HMAC wrap their
  arguments in a tag. The transport either answers every request with one response or
  fails every request with one error.
\<close>

fun join_amp :: "string list \<Rightarrow> string" where
  "join_amp [] = []"
| "join_amp [x] = x"
| "join_amp (x # y # zs) = x @ ''&'' @ join_amp (y # zs)"

definition plain_query :: "jsval \<Rightarrow> string" where
  "plain_query v = join_amp (map (\<lambda>(k, x). k @ ''='' @ js_toString x) (own_props v))"

definition tagged_hmac :: "hash_alg \<Rightarrow> string \<Rightarrow> string \<Rightarrow> string" where
  "tagged_hmac alg key msg =
     (case alg of sha384 \<Rightarrow> ''hmac384('' | sha512 \<Rightarrow> ''hmac512('') @ key @ '','' @ msg @ '')''"

definition stand_in :: "(jsobj \<Rightarrow> jsval + jsval) \<Rightarrow> env" where
  "stand_in transport =
     \<lparr>qs_stringify = plain_query,
      JSON_stringify = (\<lambda>v. ''{'' @ plain_query v @ ''}''),
      base64 = (\<lambda>s. ''b64('' @ s @ '')''),
      hmac_hex = tagged_hmac,
      axios = transport\<rparr>"

definition answering :: "jsval \<Rightarrow> jsobj \<Rightarrow> jsval + jsval" where
  "answering response agentConfig = Inr response"

definition failing :: "jsval \<Rightarrow> jsobj \<Rightarrow> jsval + jsval" where
  "failing err agentConfig = Inl err"

definition keys0 :: IApiAuth where
  "keys0 = \<lparr>publicKey = ''k'', privateKey = ''s''\<rparr>"

subsection \<open>The query encoder on flat parameters\<close>






section \<open>What the specification promises, as definitions\<close>

text \<open>
  The result of a private call that is refused for want of credentials: the promise is
  rejected with the fixed message, no request reaches the transport, and the client is
  the one the call started from.
\<close>

definition refused :: "'c \<Rightarrow> 'c call" where
  "refused c =
     \<lparr>settled = Rejected (Reason (JStr ''api keys are required to access private endpoints'')),
      requests = [], client = c\<rparr>"


section \<open>Properties of objects\<close>

text \<open>
  What defining a property and spreading an object do to the properties an object has:
  a definition overrides one key and leaves the others; a spread overrides with the
  properties of its source, and leaves alone the keys its source does not have.
\<close>

lemma map_of_replace_prop:
  "k \<in> fst ` set ps \<Longrightarrow> map_of (replace_prop k v ps) = (map_of ps)(k \<mapsto> v)"
proof (induction k v ps rule: replace_prop.induct)
  case (1 k v)
  then show ?case by simp
next
  case (2 k v k' v' ps)
  show ?case
  proof (cases "k' = k")
    case True
    then show ?thesis by (simp add: fun_eq_iff)
  next
    case False
    with "2.prems" have "k \<in> fst ` set ps" by auto
    with False "2.IH" show ?thesis by (simp add: fun_eq_iff)
  qed
qed

lemma map_of_insert_index:
  "k \<notin> fst ` set ps \<Longrightarrow> map_of (insert_index n k v ps) = (map_of ps)(k \<mapsto> v)"
proof (induction n k v ps rule: insert_index.induct)
  case (1 n k v)
  then show ?case by simp
next
  case (2 n k v k' v' ps)
  from "2.prems" have ne: "k' \<noteq> k" and fresh: "k \<notin> fst ` set ps" by auto
  show ?case
  proof (cases "array_index k'")
    case None
    then show ?thesis by (auto simp: fun_eq_iff)
  next
    case (Some m)
    show ?thesis
    proof (cases "m < n")
      case True
      with Some "2.IH" fresh ne show ?thesis by (simp add: fun_eq_iff)
    next
      case False
      with Some show ?thesis by (auto simp: fun_eq_iff)
    qed
  qed
qed

lemma map_of_set_prop: "map_of (set_prop k v ps) = (map_of ps)(k \<mapsto> v)"
proof (cases "k \<in> fst ` set ps")
  case True
  then show ?thesis by (simp add: set_prop_def map_of_replace_prop)
next
  case False
  then have none: "map_of ps k = None" by (simp add: map_of_eq_None_iff)
  show ?thesis
  proof (cases "array_index k")
    case None
    with False none show ?thesis
      by (auto simp: set_prop_def fun_eq_iff map_add_def split: option.splits)
  next
    case (Some n)
    with False show ?thesis by (simp add: set_prop_def map_of_insert_index)
  qed
qed

lemma lookup_set_prop:
  "lookup_prop (set_prop k v ps) k' = (if k' = k then v else lookup_prop ps k')"
  by (simp add: lookup_prop_def map_of_set_prop)

lemma map_of_foldl_set_prop:
  "map_of (foldl (\<lambda>obj (k, v). set_prop k v obj) t ps) = map_of t ++ map_of (rev ps)"
proof (induction ps arbitrary: t)
  case Nil
  then show ?case by simp
next
  case (Cons p ps)
  obtain k v where p: "p = (k, v)" by (cases p)
  show ?case
    by (simp add: Cons.IH p map_of_set_prop fun_eq_iff map_add_def split: option.splits)
qed

lemma map_of_rev_distinct: "distinct (map fst ps) \<Longrightarrow> map_of (rev ps) = map_of ps"
proof (induction ps)
  case Nil
  then show ?case by simp
next
  case (Cons p ps)
  obtain k v where p: "p = (k, v)" by (cases p)
  from Cons.prems p have fresh: "map_of ps k = None"
    by (simp add: map_of_eq_None_iff)
  from Cons.prems have "map_of (rev ps) = map_of ps"
    by (simp add: Cons.IH)
  with fresh show ?case
    by (auto simp: p fun_eq_iff map_add_def split: option.splits)
qed

lemma map_of_spread_any:
  "map_of (spread t src) = map_of t ++ map_of (rev (own_props src))"
  by (simp add: spread_def map_of_foldl_set_prop)

lemma map_of_spread:
  "wf_obj src \<Longrightarrow> map_of (spread t src) = map_of t ++ map_of (own_props src)"
  by (simp add: map_of_spread_any wf_obj_def map_of_rev_distinct)

lemma lookup_spread:
  "wf_obj src \<Longrightarrow>
   lookup_prop (spread t src) k =
     (case map_of (own_props src) k of None \<Rightarrow> lookup_prop t k | Some v \<Rightarrow> v)"
  by (simp add: lookup_prop_def map_of_spread map_add_def split: option.splits)

lemma copy_distinct: "distinct (map fst ps) \<Longrightarrow> map_of (spread [] (JObj ps)) = map_of ps"
  by (simp add: map_of_spread wf_obj_def)

lemma map_of_spread_absent:
  "k \<notin> fst ` set (own_props src) \<Longrightarrow> map_of (spread t src) k = map_of t k"
proof -
  assume "k \<notin> fst ` set (own_props src)"
  then have "map_of (rev (own_props src)) k = None" by (simp add: map_of_eq_None_iff)
  then show ?thesis by (simp add: map_of_spread_any map_add_def)
qed

lemma lookup_spread_absent:
  "k \<notin> fst ` set (own_props src) \<Longrightarrow> lookup_prop (spread t src) k = lookup_prop t k"
  by (simp add: lookup_prop_def map_of_spread_absent)

lemma spread_null [simp]: "spread t JNull = t" "spread t JUndefined = t"
  by (simp_all add: spread_def)


text \<open>Property names stay distinct under definition and spread.\<close>

lemma keys_insert_index:
  "fst ` set (insert_index n k v ps) = insert k (fst ` set ps)"
  by (induction n k v ps rule: insert_index.induct) (auto split: option.splits)

lemma distinct_replace_prop:
  "distinct (map fst ps) \<Longrightarrow> distinct (map fst (replace_prop k v ps))"
proof -
  have "map fst (replace_prop k v ps) = map fst ps"
    by (induction k v ps rule: replace_prop.induct) simp_all
  then show "distinct (map fst ps) \<Longrightarrow> distinct (map fst (replace_prop k v ps))"
    by simp
qed

lemma distinct_insert_index:
  "distinct (map fst ps) \<Longrightarrow> k \<notin> fst ` set ps \<Longrightarrow> distinct (map fst (insert_index n k v ps))"
proof (induction n k v ps rule: insert_index.induct)
  case (1 n k v)
  then show ?case by simp
next
  case (2 n k v k' v' ps)
  then have "k' \<notin> fst ` set (insert_index n k v ps)"
    by (auto simp: keys_insert_index)
  with 2 show ?case
    by (auto split: option.splits)
qed

lemma distinct_set_prop:
  "distinct (map fst ps) \<Longrightarrow> distinct (map fst (set_prop k v ps))"
  by (auto simp: set_prop_def distinct_replace_prop distinct_insert_index split: option.splits)

lemma distinct_foldl_set_prop:
  "distinct (map fst t) \<Longrightarrow>
   distinct (map fst (foldl (\<lambda>obj (k, v). set_prop k v obj) t ps))"
proof (induction ps arbitrary: t)
  case Nil
  then show ?case by simp
next
  case (Cons p ps)
  obtain k v where p: "p = (k, v)" by (cases p)
  from Cons.prems have "distinct (map fst (set_prop k v t))"
    by (rule distinct_set_prop)
  then show ?case
    by (simp add: p Cons.IH)
qed

lemma distinct_spread: "distinct (map fst t) \<Longrightarrow> distinct (map fst (spread t src))"
  by (simp add: spread_def distinct_foldl_set_prop)

lemma wf_spread: "distinct (map fst t) \<Longrightarrow> wf_obj (JObj (spread t src))"
  by (simp add: wf_obj_def distinct_spread)

text \<open>
  Evaluation on concrete objects: a key that does not start with a digit is no array
  index, so it replaces in place or goes last; decimal rendering goes one digit at a
  time.
\<close>

lemma array_index_not_digit: "\<not> is_digit c \<Longrightarrow> array_index (c # cs) = None"
  by (simp add: array_index_def)

lemma set_prop_named:
  "\<not> is_digit c \<Longrightarrow> set_prop (c # cs) v ps =
     (if (c # cs) \<in> fst ` set ps then replace_prop (c # cs) v ps else ps @ [(c # cs, v)])"
  by (simp add: set_prop_def array_index_not_digit)

lemma dec_digit: "n < 10 \<Longrightarrow> dec n = [''0123456789'' ! n]"
  by (simp add: dec.simps)

lemma dec_more: "\<not> n < 10 \<Longrightarrow> dec n = dec (n div 10) @ [''0123456789'' ! (n mod 10)]"
  by (subst dec.simps) simp

lemmas run = set_prop_named spread_def is_digit_def lookup_prop_def num_toString_def
  dec_digit dec_more Let_def

section \<open>The constant objects\<close>

text \<open>
  The built-in configurations as a spread copies them, and what the per-call \<open>config\<close>
  (the defaults overlaid with \<open>configOverride\<close>) contains.
\<close>

lemma bittrex_defaultConfig_copy: "spread [] (JObj bittrex_defaultConfig) = bittrex_defaultConfig"
  by (simp add: bittrex_defaultConfig_def run)

lemma bittrex_config_absent:
  assumes "k \<notin> fst ` set (own_props cfg)" and "k \<notin> {''rootUrl'', ''timeout'', ''version''}"
  shows "map_of (bittrex_config cfg) k = None"
  using assms
  by (simp add: bittrex_config_def map_of_spread_absent bittrex_defaultConfig_copy
        bittrex_defaultConfig_def)

lemma wf_bittrex_config: "wf_obj (JObj (bittrex_config cfg))"
  by (simp add: bittrex_config_def wf_spread distinct_spread)

lemma bittrex_config_timeout:
  assumes "wf_obj cfg" and "map_of (own_props cfg) ''timeout'' = Some t"
  shows "map_of (bittrex_config cfg) ''timeout'' = Some t"
  using assms by (simp add: bittrex_config_def map_of_spread)

lemma bittrex_request_timeout:
  assumes "wf_obj cfg" and "map_of (own_props cfg) ''timeout'' = Some t"
  shows "lookup_prop (spread base (JObj (bittrex_config cfg))) ''timeout'' = t"
proof -
  have "lookup_prop (spread base (JObj (bittrex_config cfg))) ''timeout'' =
          (case map_of (bittrex_config cfg) ''timeout'' of
             None \<Rightarrow> lookup_prop base ''timeout'' | Some v \<Rightarrow> v)"
    by (simp add: lookup_spread wf_bittrex_config)
  with bittrex_config_timeout [OF assms] show ?thesis
    by simp
qed

lemma bittrex_headers_copy:
  "spread [] (lookup_prop bittrex_privateAgentConfig ''headers'') =
     [(''Cache-Control'', JStr ''no-cache''),
      (''Content-Type'', JStr ''application/json''),
      (''User-Agent'', JStr ''Bittrex API Client (bittrex-cryptoexchange-api node package)'')]"
  by (simp add: bittrex_privateAgentConfig_def bittrex_defaultAgentConfig_def lookup_prop_def run)

lemma gemini_agent_copy: "spread [] (JObj gemini_defaultAgentConfig) = gemini_defaultAgentConfig"
  by (simp add: gemini_defaultAgentConfig_def run)

lemma gemini_public_copy: "spread [] (JObj gemini_publicAgentConfig) = gemini_defaultAgentConfig"
  by (simp only: gemini_publicAgentConfig_def gemini_agent_copy)

lemma gemini_private_copy:
  "spread [] (JObj gemini_privateAgentConfig) =
     [(''baseURL'', JStr ''https://api.gemini.com''),
      (''headers'', JObj
         [(''Cache-Control'', JStr ''no-cache''),
          (''Content-Length'', JNum 0),
          (''Content-Type'', JStr ''text/plain''),
          (''User-Agent'', JStr ''Gemini API Client (gemini-api node package)'')]),
      (''method'', JStr ''POST''),
      (''timeout'', JNum 10000)]"
  by (simp add: gemini_privateAgentConfig_def gemini_defaultAgentConfig_def
        gemini_defaultConfig_def run)

lemma gemini_headers_copy:
  "spread [] (lookup_prop gemini_privateAgentConfig ''headers'') =
     [(''Cache-Control'', JStr ''no-cache''),
      (''Content-Length'', JNum 0),
      (''Content-Type'', JStr ''text/plain''),
      (''User-Agent'', JStr ''Gemini API Client (gemini-api node package)'')]"
  by (simp add: gemini_privateAgentConfig_def gemini_defaultAgentConfig_def lookup_prop_def run)

lemma gemini_defaultAgentConfig_value:
  "gemini_defaultAgentConfig =
     [(''baseURL'', JStr ''https://api.gemini.com''),
      (''headers'', JObj
         [(''Cache-Control'', JStr ''no-cache''),
          (''Content-Length'', JNum 0),
          (''Content-Type'', JStr ''text/plain''),
          (''User-Agent'', JStr ''Gemini API Client (gemini-api node package)'')]),
      (''method'', JStr ''GET''),
      (''timeout'', JNum 10000)]"
  by (simp add: gemini_defaultAgentConfig_def gemini_defaultConfig_def lookup_prop_def)

section \<open>The dispatchers, step by step\<close>


lemma bittrex_signMessage_fields:
  "lookup_prop (bittrex_signMessage e fullPath queryParams secret) ''fullUrl'' =
     JStr (fullPath @ ''?'' @ qs_stringify e queryParams)"
  "lookup_prop (bittrex_signMessage e fullPath queryParams secret) ''digest'' =
     JStr (hmac_hex e sha512 secret (fullPath @ ''?'' @ qs_stringify e queryParams))"
  by (simp_all add: bittrex_signMessage_def Let_def lookup_prop_def)

text \<open>
  Each dispatcher hands the transport exactly one request, the \<open>agentConfig\<close> it built,
  unless it refuses the call, and it returns the client it was called on.
\<close>

lemma postToPrivateEndpoint_unupgraded:
  "auth c = None \<Longrightarrow> postToPrivateEndpoint e now c endpoint body cfg =
     \<lparr>settled = Rejected unauthenticated, requests = [], client = c\<rparr>"
  by (simp add: postToPrivateEndpoint_def isUpgraded_def)

lemma getPrivateEndpoint_unupgraded:
  "auth c = None \<Longrightarrow> getPrivateEndpoint e now c endpoint params cfg =
     \<lparr>settled = Rejected unauthenticated, requests = [], client = c\<rparr>"
  by (simp add: getPrivateEndpoint_def isUpgraded_def)

lemma forward_unupgraded:
  "auth (rawAgent b) = None \<Longrightarrow>
   forward b (getPrivateEndpoint e now (rawAgent b) endpoint params cfg) =
     \<lparr>settled = Rejected unauthenticated, requests = [], client = b\<rparr>"
  by (simp add: getPrivateEndpoint_unupgraded forward_def)

lemma postToPrivateEndpoint_upgraded:
  "auth c = Some a \<Longrightarrow>
   requests (postToPrivateEndpoint e now c endpoint body cfg) =
     [postToPrivateEndpoint_agentConfig e now a endpoint body cfg]
   \<and> client (postToPrivateEndpoint e now c endpoint body cfg) = c"
  by (simp add: postToPrivateEndpoint_def isUpgraded_def Let_def split: sum.splits)

lemma getPrivateEndpoint_upgraded:
  "auth c = Some a \<Longrightarrow>
   requests (getPrivateEndpoint e now c endpoint params cfg) =
     [getPrivateEndpoint_agentConfig e now a endpoint params cfg]
   \<and> client (getPrivateEndpoint e now c endpoint params cfg) = c"
  by (simp add: getPrivateEndpoint_def isUpgraded_def Let_def split: sum.splits)

lemma gemini_public_requests:
  "requests (gemini_getPublicEndpoint e c endpoint queryParams cfg) =
     [gemini_getPublicEndpoint_agentConfig e endpoint queryParams cfg]
   \<and> client (gemini_getPublicEndpoint e c endpoint queryParams cfg) = c"
  by (simp add: gemini_getPublicEndpoint_def Let_def split: sum.splits)

lemma bittrex_public_requests:
  "requests (bittrex_getPublicEndpoint e c endpoint queryParams cfg) =
     [bittrex_getPublicEndpoint_agentConfig e endpoint queryParams cfg]
   \<and> client (bittrex_getPublicEndpoint e c endpoint queryParams cfg) = c"
  by (simp add: bittrex_getPublicEndpoint_def Let_def split: sum.splits)

lemma forward_requests: "requests (forward c r) = requests r"
  by (simp add: forward_def)

lemma client_forward: "client r = rawAgent b \<Longrightarrow> client (forward b r) = b"
  by (simp add: forward_def)

lemma client_postToPrivateEndpoint: "client (postToPrivateEndpoint e now c endpoint body cfg) = c"
  by (simp add: postToPrivateEndpoint_def Let_def split: option.splits sum.splits)

lemma client_getPrivateEndpoint: "client (getPrivateEndpoint e now c endpoint params cfg) = c"
  by (simp add: getPrivateEndpoint_def Let_def split: option.splits sum.splits)

text \<open>The fields of the requests.\<close>

lemma gemini_public_request:
  "gemini_getPublicEndpoint_agentConfig e endpoint queryParams cfg =
     gemini_defaultAgentConfig @
       [(''url'', JStr (js_toString (lookup_prop (gemini_config cfg) ''version'') @ ''/'' @ endpoint
                       @ ''?'' @ qs_stringify e queryParams))]"
proof -
  have "set_prop ''url'' v gemini_defaultAgentConfig = gemini_defaultAgentConfig @ [(''url'', v)]"
    for v
    by (simp add: gemini_defaultAgentConfig_def set_prop_named is_digit_def)
  then show ?thesis
    by (simp add: gemini_getPublicEndpoint_agentConfig_def Let_def gemini_public_copy)
qed


lemma gemini_private_request_defaults:
  "lookup_prop (postToPrivateEndpoint_agentConfig e now a endpoint body cfg) ''timeout'' = JNum 10000"
  "lookup_prop (postToPrivateEndpoint_agentConfig e now a endpoint body cfg) ''method'' = JStr ''POST''"
  "lookup_prop (postToPrivateEndpoint_agentConfig e now a endpoint body cfg) ''url'' =
     JStr (''/'' @ js_toString (lookup_prop (gemini_config cfg) ''version'') @ ''/'' @ endpoint)"
  by (simp_all add: postToPrivateEndpoint_agentConfig_def map_of_set_prop
        gemini_private_copy postToPrivateEndpoint_uri_def lookup_prop_def)

lemma gemini_private_headers:
  "postToPrivateEndpoint_headers e now a endpoint body cfg =
     [(''Cache-Control'', JStr ''no-cache''),
      (''Content-Length'', JNum 0),
      (''Content-Type'', JStr ''text/plain''),
      (''User-Agent'', JStr ''Gemini API Client (gemini-api node package)''),
      (''X-GEMINI-APIKEY'', JStr (publicKey a)),
      (''X-GEMINI-PAYLOAD'',
         lookup_prop (postToPrivateEndpoint_signatureData e now a endpoint body cfg) ''payload''),
      (''X-GEMINI-SIGNATURE'',
         lookup_prop (postToPrivateEndpoint_signatureData e now a endpoint body cfg) ''digest'')]"
  by (simp add: postToPrivateEndpoint_headers_def gemini_headers_copy Let_def set_prop_named
        is_digit_def)

lemma gemini_private_request:
  "postToPrivateEndpoint_agentConfig e now a endpoint body cfg =
     [(''baseURL'', JStr ''https://api.gemini.com''),
      (''headers'', JObj (postToPrivateEndpoint_headers e now a endpoint body cfg)),
      (''method'', JStr ''POST''),
      (''timeout'', JNum 10000),
      (''url'', JStr (postToPrivateEndpoint_uri endpoint cfg)),
      (''data'', JSON_stringify_val e body)]"
  by (simp add: postToPrivateEndpoint_agentConfig_def gemini_private_copy set_prop_named
        is_digit_def)

lemma bittrex_public_url:
  assumes "''url'' \<notin> fst ` set (own_props cfg)"
  shows "lookup_prop (bittrex_getPublicEndpoint_agentConfig e endpoint queryParams cfg) ''url'' =
           JStr (js_toString (lookup_prop (bittrex_config cfg) ''version'') @ ''/'' @ endpoint
                 @ ''?'' @ qs_stringify e queryParams)"
proof -
  from assms have "map_of (bittrex_config cfg) ''url'' = None"
    by (simp add: bittrex_config_absent)
  then have "''url'' \<notin> fst ` set (own_props (JObj (bittrex_config cfg)))"
    by (simp add: map_of_eq_None_iff)
  then show ?thesis
    by (simp add: bittrex_getPublicEndpoint_agentConfig_def Let_def lookup_spread_absent
          lookup_set_prop)
qed

lemma bittrex_public_request_timeout:
  assumes "wf_obj cfg" and "map_of (own_props cfg) ''timeout'' = Some t"
  shows "lookup_prop (bittrex_getPublicEndpoint_agentConfig e endpoint queryParams cfg) ''timeout'' = t"
  using assms
  by (simp add: bittrex_getPublicEndpoint_agentConfig_def Let_def bittrex_request_timeout)

lemma bittrex_private_request_timeout:
  assumes "wf_obj cfg" and "map_of (own_props cfg) ''timeout'' = Some t"
  shows "lookup_prop (getPrivateEndpoint_agentConfig e now a endpoint params cfg) ''timeout'' = t"
  using assms by (simp add: getPrivateEndpoint_agentConfig_def Let_def bittrex_request_timeout)

lemma getPrivateEndpoint_request_plain:
  assumes h: "''headers'' \<notin> fst ` set (own_props cfg)"
      and u: "''url'' \<notin> fst ` set (own_props cfg)"
  shows "lookup_prop (getPrivateEndpoint_agentConfig e now a endpoint params cfg) ''url'' =
           lookup_prop (getPrivateEndpoint_signatureData e now a endpoint params cfg) ''fullUrl''"
    and "lookup_prop (getPrivateEndpoint_agentConfig e now a endpoint params cfg) ''headers'' =
           JObj (getPrivateEndpoint_headers e now a endpoint params cfg)"
    and "lookup_prop (getPrivateEndpoint_headers e now a endpoint params cfg) ''apisign'' =
           lookup_prop (getPrivateEndpoint_signatureData e now a endpoint params cfg) ''digest''"
proof -
  have ch: "map_of (bittrex_config cfg) ''headers'' = None"
    using h by (simp add: bittrex_config_absent)
  have cu: "map_of (bittrex_config cfg) ''url'' = None"
    using u by (simp add: bittrex_config_absent)
  from cu have ku: "''url'' \<notin> fst ` set (own_props (JObj (bittrex_config cfg)))"
    by (simp add: map_of_eq_None_iff)
  from ch have kh: "''headers'' \<notin> fst ` set (own_props (JObj (bittrex_config cfg)))"
    by (simp add: map_of_eq_None_iff)
  show "lookup_prop (getPrivateEndpoint_agentConfig e now a endpoint params cfg) ''url'' =
           lookup_prop (getPrivateEndpoint_signatureData e now a endpoint params cfg) ''fullUrl''"
    using ku by (simp add: getPrivateEndpoint_agentConfig_def Let_def lookup_spread_absent
          lookup_set_prop)
  show "lookup_prop (getPrivateEndpoint_agentConfig e now a endpoint params cfg) ''headers'' =
           JObj (getPrivateEndpoint_headers e now a endpoint params cfg)"
    using kh by (simp add: getPrivateEndpoint_agentConfig_def Let_def lookup_spread_absent
          lookup_set_prop)
  from ch have "lookup_prop (bittrex_config cfg) ''headers'' = JUndefined"
    by (simp add: lookup_prop_def)
  then show "lookup_prop (getPrivateEndpoint_headers e now a endpoint params cfg) ''apisign'' =
           lookup_prop (getPrivateEndpoint_signatureData e now a endpoint params cfg) ''digest''"
    by (simp add: getPrivateEndpoint_headers_def Let_def lookup_set_prop)
qed

text \<open>An error without a response: the first property read of the \<open>catch\<close> block
  succeeds with \<open>undefined\<close>, the second throws.\<close>

lemma rejectionReason_no_response:
  "get_prop err ''response'' = Some JUndefined \<Longrightarrow> rejectionReason err = TypeError"
  by (simp add: rejectionReason_def)

section \<open>Signing\<close>




text \<open>
  C2. For every path, every \<open>postData\<close> object and every secret, at the clock value
  \<open>now\<close> the Gemini \<open>signMessage\<close> returns \<open>payload\<close> = the base64 encoding of the JSON
  text of \<open>body\<close>, and \<open>digest\<close> = the hex HMAC-SHA384 of that payload keyed by the
  secret, where \<open>body\<close> has the fields of \<open>postData\<close> overridden by
  \<open>nonce = now.toString()\<close> and \<open>request = path\<close>. Nothing else enters the result, so
  the same inputs and the same nonce give the same payload and digest.
\<close>

theorem gemini_signMessage_spec:
  assumes "wf_obj postData"
  shows "gemini_signMessage e now path postData secret =
           [(''payload'',
               JStr (base64 e (JSON_stringify e (JObj (gemini_signMessage_body now path postData))))),
            (''digest'',
               JStr (hmac_hex e sha384 secret
                 (base64 e (JSON_stringify e (JObj (gemini_signMessage_body now path postData))))))]
         \<and> map_of (gemini_signMessage_body now path postData) =
             (map_of (own_props postData))
               (''nonce'' \<mapsto> JStr (num_toString now), ''request'' \<mapsto> JStr path)"
  using assms
  by (simp add: gemini_signMessage_def gemini_signMessage_body_def Let_def
        map_of_set_prop map_of_spread)

theorem gemini_signMessage_spec_witness:
  "wf_obj (JObj [(''nonce'', JNum 1), (''symbol'', JStr ''btcusd'')])
   \<and> gemini_signMessage (stand_in (answering JNull)) 1700 ''/v1/order/new''
         (JObj [(''nonce'', JNum 1), (''symbol'', JStr ''btcusd'')]) ''s'' =
       [(''payload'', JStr ''b64({nonce=1700&symbol=btcusd&request=/v1/order/new})''),
        (''digest'', JStr ''hmac384(s,b64({nonce=1700&symbol=btcusd&request=/v1/order/new}))'')]"
proof -
  have wf: "wf_obj (JObj [(''nonce'', JNum 1), (''symbol'', JStr ''btcusd'')])"
    by (simp add: wf_obj_def)
  have body: "gemini_signMessage_body 1700 ''/v1/order/new''
                (JObj [(''nonce'', JNum 1), (''symbol'', JStr ''btcusd'')]) =
              [(''nonce'', JStr ''1700''), (''symbol'', JStr ''btcusd''),
               (''request'', JStr ''/v1/order/new'')]"
    by (simp add: gemini_signMessage_body_def run)
  from gemini_signMessage_spec [OF wf, of "stand_in (answering JNull)" 1700 "''/v1/order/new''" "''s''"]
  show ?thesis
    by (simp add: wf body stand_in_def plain_query_def tagged_hmac_def run)
qed

section \<open>Private calls without credentials\<close>

text \<open>
  C3. On a client with no \<open>ApiAuth\<close> set, every private-endpoint call (Gemini
  \<open>postToPrivateEndpoint\<close>, Bittrex \<open>getPrivateEndpoint\<close> and each of the twelve typed
  private operations) rejects with the message
  "api keys are required to access private endpoints", hands no request to the transport
  and leaves the client as it was.
\<close>

theorem private_calls_require_auth:
  assumes "auth c = None" and "auth (rawAgent b) = None"
  shows "postToPrivateEndpoint e now c endpoint body cfg = refused c
       \<and> getPrivateEndpoint e now c endpoint params cfg = refused c
       \<and> placeLimitBuy e now b params = refused b
       \<and> placeLimitSell e now b params = refused b
       \<and> cancelOrder e now b orderId = refused b
       \<and> getOpenOrders e now b marketSymbol = refused b
       \<and> getAccountBalances e now b = refused b
       \<and> getBalance e now b currencyId = refused b
       \<and> getDepositAddress e now b currencyId = refused b
       \<and> withdrawCrypto e now b params = refused b
       \<and> getOrder e now b orderId = refused b
       \<and> getOrderHistory e now b marketSymbol = refused b
       \<and> getWithdrawalHistory e now b currency = refused b
       \<and> getDepositHistory e now b currency = refused b"
proof -
  have raw: "postToPrivateEndpoint e now c endpoint body cfg = refused c"
            "getPrivateEndpoint e now c endpoint params cfg = refused c"
    using assms(1)
    by (simp_all add: postToPrivateEndpoint_unupgraded getPrivateEndpoint_unupgraded
          refused_def unauthenticated_def)
  have typed: "forward b (getPrivateEndpoint e now (rawAgent b) ep ps (configOverride b)) = refused b"
    for ep ps
    using assms(2) by (simp add: forward_unupgraded refused_def unauthenticated_def)
  show ?thesis
    unfolding placeLimitBuy_def placeLimitSell_def cancelOrder_def getOpenOrders_def
      getAccountBalances_def getBalance_def getDepositAddress_def withdrawCrypto_def
      getOrder_def getOrderHistory_def getWithdrawalHistory_def getDepositHistory_def
    by (simp only: raw typed simp_thms)
qed

theorem private_calls_require_auth_witness:
  "auth (gemini_getClient None) = None \<and> auth (rawAgent (bittrex_getClient None JUndefined)) = None
   \<and> postToPrivateEndpoint (stand_in (answering (JStr ''ok''))) 1700 (gemini_getClient None)
        ''balances'' JUndefined JUndefined
      = \<lparr>settled = Rejected (Reason (JStr ''api keys are required to access private endpoints'')),
         requests = [], client = \<lparr>auth = None\<rparr>\<rparr>
   \<and> getAccountBalances (stand_in (answering (JStr ''ok''))) 1700 (bittrex_getClient None JUndefined)
      = \<lparr>settled = Rejected (Reason (JStr ''api keys are required to access private endpoints'')),
         requests = [], client = \<lparr>rawAgent = \<lparr>auth = None\<rparr>, configOverride = JNull\<rparr>\<rparr>"
proof -
  have a: "auth (gemini_getClient None) = None"
    by (simp add: gemini_getClient_def)
  have b: "auth (rawAgent (bittrex_getClient None JUndefined)) = None"
    by (simp add: bittrex_getClient_def getRawAgent_def)
  from private_calls_require_auth [OF a b, of "stand_in (answering (JStr ''ok''))" 1700 "''balances''" JUndefined JUndefined]
  show ?thesis
    by (simp add: a b refused_def gemini_getClient_def bittrex_getClient_def getRawAgent_def)
qed

section \<open>Transport errors\<close>

text \<open>
  C4. The rejection value of a failed private call is meant to be the first usable value
  among the \<open>error\<close> field of the response body, the body, the response and the raw
  error. The \<open>catch\<close> block evaluates \<open>err.response.data.error\<close> before any of the
  fallbacks, and that read throws when there is no response (or no body). Evaluated at a
  network failure, an error object without \<open>response\<close>, both private dispatchers reject
  with the \<open>TypeError\<close> of that read and not with the raw error.
\<close>

theorem network_error_rejects_with_TypeError:
  "settled (postToPrivateEndpoint
             (stand_in (failing (JObj [(''message'', JStr ''Network Error'')]))) 2
             (upgrade (gemini_getClient None) keys0) ''balances'' JUndefined JUndefined)
     = Rejected TypeError
   \<and> settled (getPrivateEndpoint
             (stand_in (failing (JObj [(''message'', JStr ''Network Error'')]))) 2
             (upgrade (getRawAgent None) keys0) ''account/getbalances'' JNull JNull)
     = Rejected TypeError"
proof -
  have "rejectionReason (JObj [(''message'', JStr ''Network Error'')]) = TypeError"
    by (simp add: rejectionReason_no_response lookup_prop_def)
  then show ?thesis
    by (simp add: postToPrivateEndpoint_def getPrivateEndpoint_def isUpgraded_def upgrade_def
          gemini_getClient_def getRawAgent_def stand_in_def failing_def Let_def)
qed

text \<open>
  A companion result. When the error does carry a response with a body (neither
  \<open>undefined\<close> nor \<open>null\<close>), the rejection value is the first truthy value among the
  body's \<open>error\<close> field, the body and the response, and the raw error when none is
  truthy: a body \<open>{error: "X"}\<close> gives \<open>"X"\<close>, a body without \<open>error\<close> gives the
  body, an empty-string body gives the response object.
\<close>

theorem rejectionReason_with_response:
  assumes "get_prop err ''response'' = Some response"
      and "get_prop response ''data'' = Some body"
      and "get_prop body ''error'' = Some x"
  shows "rejectionReason err =
           Reason (if truthy x then x else if truthy body then body
                   else if truthy response then response else err)"
  using assms by (simp add: rejectionReason_def js_or_def)

theorem rejectionReason_with_response_witness:
  "rejectionReason (JObj [(''response'', JObj [(''data'', JObj [(''error'', JStr ''X'')])])]) =
     Reason (JStr ''X'')
   \<and> rejectionReason (JObj [(''response'', JObj [(''data'', JObj [(''message'', JStr ''no'')])])]) =
     Reason (JObj [(''message'', JStr ''no'')])
   \<and> rejectionReason (JObj [(''response'', JObj [(''status'', JNum 502), (''data'', JStr '''')])]) =
     Reason (JObj [(''status'', JNum 502), (''data'', JStr '''')])"
proof -
  have a: "rejectionReason (JObj [(''response'', JObj [(''data'', JObj [(''error'', JStr ''X'')])])]) =
     Reason (JStr ''X'')"
    using rejectionReason_with_response
      [of "JObj [(''response'', JObj [(''data'', JObj [(''error'', JStr ''X'')])])]"
          "JObj [(''data'', JObj [(''error'', JStr ''X'')])]"
          "JObj [(''error'', JStr ''X'')]" "JStr ''X''"]
    by (simp add: lookup_prop_def)
  have b: "rejectionReason (JObj [(''response'', JObj [(''data'', JObj [(''message'', JStr ''no'')])])]) =
     Reason (JObj [(''message'', JStr ''no'')])"
    using rejectionReason_with_response
      [of "JObj [(''response'', JObj [(''data'', JObj [(''message'', JStr ''no'')])])]"
          "JObj [(''data'', JObj [(''message'', JStr ''no'')])]"
          "JObj [(''message'', JStr ''no'')]" JUndefined]
    by (simp add: lookup_prop_def)
  have c: "rejectionReason (JObj [(''response'', JObj [(''status'', JNum 502), (''data'', JStr '''')])]) =
     Reason (JObj [(''status'', JNum 502), (''data'', JStr '''')])"
    using rejectionReason_with_response
      [of "JObj [(''response'', JObj [(''status'', JNum 502), (''data'', JStr '''')])]"
          "JObj [(''status'', JNum 502), (''data'', JStr '''')]"
          "JStr ''''" JUndefined]
    by (simp add: lookup_prop_def)
  from a b c show ?thesis by simp
qed

section \<open>Credentials in private requests\<close>



text \<open>
  C6. A Bittrex private request is meant to carry \<open>apisign\<close> merged into the base
  headers, with a per-call header override taking precedence. \<open>getPrivateEndpoint\<close>
  computes exactly these headers, and then spreads \<open>config\<close> last into the request, so
  a per-call configuration that sets \<open>headers\<close> replaces them. Evaluated on an upgraded
  client with the override \<open>{ headers: { 'X-Foo': 'bar' } }\<close>: the issued request has the
  override's headers only, without \<open>apisign\<close> and without the defaults.
\<close>

theorem headers_override_drops_apisign:
  "requests (getPrivateEndpoint (stand_in (answering (JStr ''ok''))) 2
              (upgrade (getRawAgent None) keys0) ''account/getbalances'' JNull
              (JObj [(''headers'', JObj [(''X-Foo'', JStr ''bar'')])]))
     = [[(''baseURL'', JStr ''https://bittrex.com/api''),
         (''headers'', JObj [(''X-Foo'', JStr ''bar'')]),
         (''method'', JStr ''GET''),
         (''timeout'', JNum 3000),
         (''url'', JStr ''https://bittrex.com/api/v1.1/account/getbalances?apiKey=k&nonce=2000''),
         (''rootUrl'', JStr ''https://bittrex.com/api''),
         (''version'', JStr ''v1.1'')]]"
proof -
  let ?cfg = "JObj [(''headers'', JObj [(''X-Foo'', JStr ''bar'')])]"
  let ?e = "stand_in (answering (JStr ''ok''))"
  have cfg: "bittrex_config ?cfg =
      [(''rootUrl'', JStr ''https://bittrex.com/api''), (''timeout'', JNum 3000),
       (''version'', JStr ''v1.1''), (''headers'', JObj [(''X-Foo'', JStr ''bar'')])]"
    by (simp add: bittrex_config_def bittrex_defaultConfig_def run)
  have base: "spread [] (JObj bittrex_privateAgentConfig) =
      [(''baseURL'', JStr ''https://bittrex.com/api''),
       (''headers'', JObj
         [(''Cache-Control'', JStr ''no-cache''),
          (''Content-Type'', JStr ''application/json''),
          (''User-Agent'', JStr ''Bittrex API Client (bittrex-cryptoexchange-api node package)'')]),
       (''method'', JStr ''GET''),
       (''timeout'', JNum 3000)]"
    by (simp add: bittrex_privateAgentConfig_def bittrex_defaultAgentConfig_def
          bittrex_defaultConfig_def run)
  have sig: "getPrivateEndpoint_signatureData ?e 2 keys0 ''account/getbalances'' JNull ?cfg =
      [(''fullUrl'', JStr ''https://bittrex.com/api/v1.1/account/getbalances?apiKey=k&nonce=2000''),
       (''digest'', JStr ''hmac512(s,https://bittrex.com/api/v1.1/account/getbalances?apiKey=k&nonce=2000)'')]"
    by (simp add: getPrivateEndpoint_signatureData_def bittrex_signMessage_def
          getPrivateEndpoint_uri_def cfg getPrivateEndpoint_scrubbedParams_def
          getPrivateEndpoint_securityParams_def keys0_def stand_in_def plain_query_def
          tagged_hmac_def run)
  have req: "getPrivateEndpoint_agentConfig ?e 2 keys0 ''account/getbalances'' JNull ?cfg =
      [(''baseURL'', JStr ''https://bittrex.com/api''),
       (''headers'', JObj [(''X-Foo'', JStr ''bar'')]),
       (''method'', JStr ''GET''),
       (''timeout'', JNum 3000),
       (''url'', JStr ''https://bittrex.com/api/v1.1/account/getbalances?apiKey=k&nonce=2000''),
       (''rootUrl'', JStr ''https://bittrex.com/api''),
       (''version'', JStr ''v1.1'')]"
    unfolding getPrivateEndpoint_agentConfig_def Let_def cfg base sig
    by (simp add: run)
  have "auth (upgrade (getRawAgent None) keys0) = Some keys0"
    by (simp add: upgrade_def)
  from getPrivateEndpoint_upgraded [OF this] req show ?thesis
    by simp
qed

text \<open>
  A companion result. When the per-call configuration sets neither \<open>headers\<close> nor
  \<open>url\<close>, the request a Bittrex private call issues has the signed URI as its \<open>url\<close>,
  and its headers are the three defaults followed by \<open>apisign\<close> = the hex HMAC-SHA512
  of that URI keyed by the private key.
\<close>

theorem bittrex_private_request_is_signed:
  assumes "auth c = Some a"
      and "''headers'' \<notin> fst ` set (own_props cfg)"
      and "''url'' \<notin> fst ` set (own_props cfg)"
  shows "requests (getPrivateEndpoint e now c endpoint params cfg) =
           [getPrivateEndpoint_agentConfig e now a endpoint params cfg]
       \<and> lookup_prop (getPrivateEndpoint_agentConfig e now a endpoint params cfg) ''url'' =
           JStr (getPrivateEndpoint_uri endpoint cfg @ ''?''
                 @ qs_stringify e (JObj (getPrivateEndpoint_scrubbedParams now a params)))
       \<and> lookup_prop (getPrivateEndpoint_agentConfig e now a endpoint params cfg) ''headers'' =
           JObj
             [(''Cache-Control'', JStr ''no-cache''),
              (''Content-Type'', JStr ''application/json''),
              (''User-Agent'',
                 JStr ''Bittrex API Client (bittrex-cryptoexchange-api node package)''),
              (''apisign'',
                 JStr (hmac_hex e sha512 (privateKey a)
                   (getPrivateEndpoint_uri endpoint cfg @ ''?''
                    @ qs_stringify e (JObj (getPrivateEndpoint_scrubbedParams now a params)))))]"
proof -
  from assms(2) have "map_of (bittrex_config cfg) ''headers'' = None"
    by (simp add: bittrex_config_absent)
  then have no: "lookup_prop (bittrex_config cfg) ''headers'' = JUndefined"
    by (simp add: lookup_prop_def)
  have hs: "getPrivateEndpoint_headers e now a endpoint params cfg =
             [(''Cache-Control'', JStr ''no-cache''),
              (''Content-Type'', JStr ''application/json''),
              (''User-Agent'',
                 JStr ''Bittrex API Client (bittrex-cryptoexchange-api node package)''),
              (''apisign'',
                 lookup_prop (getPrivateEndpoint_signatureData e now a endpoint params cfg)
                   ''digest'')]"
    by (simp add: getPrivateEndpoint_headers_def Let_def no bittrex_headers_copy set_prop_named
          is_digit_def)
  have sigf:
    "lookup_prop (getPrivateEndpoint_signatureData e now a endpoint params cfg) ''fullUrl'' =
       JStr (getPrivateEndpoint_uri endpoint cfg @ ''?''
             @ qs_stringify e (JObj (getPrivateEndpoint_scrubbedParams now a params)))"
    "lookup_prop (getPrivateEndpoint_signatureData e now a endpoint params cfg) ''digest'' =
       JStr (hmac_hex e sha512 (privateKey a)
              (getPrivateEndpoint_uri endpoint cfg @ ''?''
               @ qs_stringify e (JObj (getPrivateEndpoint_scrubbedParams now a params))))"
    by (simp_all add: getPrivateEndpoint_signatureData_def bittrex_signMessage_fields)
  from getPrivateEndpoint_upgraded [OF assms(1)]
       getPrivateEndpoint_request_plain(1,2) [OF assms(2,3)]
  show ?thesis
    by (simp add: hs sigf)
qed

theorem bittrex_private_request_is_signed_witness:
  "auth (upgrade (getRawAgent None) keys0) = Some keys0
   \<and> ''headers'' \<notin> fst ` set (own_props (JObj [(''timeout'', JNum 5)]))
   \<and> ''url'' \<notin> fst ` set (own_props (JObj [(''timeout'', JNum 5)]))
   \<and> lookup_prop
        (getPrivateEndpoint_agentConfig (stand_in (answering (JStr ''ok''))) 2 keys0
           ''account/getbalances'' JNull (JObj [(''timeout'', JNum 5)])) ''headers'' =
      JObj
        [(''Cache-Control'', JStr ''no-cache''),
         (''Content-Type'', JStr ''application/json''),
         (''User-Agent'', JStr ''Bittrex API Client (bittrex-cryptoexchange-api node package)''),
         (''apisign'',
            JStr ''hmac512(s,https://bittrex.com/api/v1.1/account/getbalances?apiKey=k&nonce=2000)'')]"
proof -
  let ?cfg = "JObj [(''timeout'', JNum 5)]"
  let ?e = "stand_in (answering (JStr ''ok''))"
  have a: "auth (upgrade (getRawAgent None) keys0) = Some keys0"
    by (simp add: upgrade_def)
  have h: "''headers'' \<notin> fst ` set (own_props ?cfg)" and u: "''url'' \<notin> fst ` set (own_props ?cfg)"
    by simp_all
  have uri: "getPrivateEndpoint_uri ''account/getbalances'' ?cfg =
               ''https://bittrex.com/api/v1.1/account/getbalances''"
    by (simp add: getPrivateEndpoint_uri_def bittrex_config_def bittrex_defaultConfig_def run)
  have sp: "getPrivateEndpoint_scrubbedParams 2 keys0 JNull =
              [(''apiKey'', JStr ''k''), (''nonce'', JNum 2000)]"
    by (simp add: getPrivateEndpoint_scrubbedParams_def getPrivateEndpoint_securityParams_def
          keys0_def run)
  have enc: "qs_stringify ?e (JObj [(''apiKey'', JStr ''k''), (''nonce'', JNum 2000)]) =
               ''apiKey=k&nonce=2000''"
    by (simp add: stand_in_def plain_query_def num_toString_def dec_digit dec_more)
  have mac: "hmac_hex ?e = tagged_hmac" and sk: "privateKey keys0 = ''s''"
    by (simp_all add: stand_in_def keys0_def)
  from bittrex_private_request_is_signed [OF a h u, of ?e 2 "''account/getbalances''" JNull] a h u
  show ?thesis
    by (simp add: uri sp enc mac sk tagged_hmac_def)
qed

section \<open>The client state\<close>

text \<open>
  C7. \<open>isUpgraded\<close> is declared to return a boolean, true iff an \<open>ApiAuth\<close> is set. Its
  body returns the \<open>auth\<close> field itself: on a client created without credentials the
  value is \<open>undefined\<close>, not \<open>false\<close>, and after \<open>upgrade\<close> it is the stored \<open>ApiAuth\<close>
  object with both keys, not \<open>true\<close>; on the Gemini client as on the Bittrex client.
\<close>

theorem isUpgraded_returns_the_auth_field:
  "auth_value (isUpgraded (gemini_getClient None)) = JUndefined
   \<and> auth_value (isUpgraded (upgrade (gemini_getClient None) keys0)) =
       JObj [(''publicKey'', JStr ''k''), (''privateKey'', JStr ''s'')]
   \<and> auth_value (client_isUpgraded (bittrex_getClient None JUndefined)) = JUndefined
   \<and> auth_value (client_isUpgraded (client_upgrade (bittrex_getClient None JUndefined) keys0)) =
       JObj [(''publicKey'', JStr ''k''), (''privateKey'', JStr ''s'')]"
  by (simp add: auth_value_def isUpgraded_def upgrade_def gemini_getClient_def
        client_isUpgraded_def client_upgrade_def bittrex_getClient_def getRawAgent_def keys0_def)

text \<open>
  A companion result. \<open>upgrade\<close> stores \<open>newAuth\<close> as the whole \<open>auth\<close> field (the
  typed client passes it to its raw agent and keeps its configuration); the value
  \<open>isUpgraded\<close> returns is \<open>undefined\<close> exactly when no \<open>ApiAuth\<close> is set; and every
  other operation of both clients returns the client unchanged.
\<close>

theorem upgrade_alone_changes_the_client:
  "auth (upgrade c newAuth) = Some newAuth
   \<and> rawAgent (client_upgrade b newAuth) = upgrade (rawAgent b) newAuth
   \<and> configOverride (client_upgrade b newAuth) = configOverride b
   \<and> (isUpgraded c = None) = (auth c = None)
   \<and> client (gemini_getPublicEndpoint e c endpoint queryParams cfg) = c
   \<and> client (postToPrivateEndpoint e now c endpoint body cfg) = c
   \<and> client (bittrex_getPublicEndpoint e c endpoint queryParams cfg) = c
   \<and> client (getPrivateEndpoint e now c endpoint params cfg) = c
   \<and> client (getMarkets e b) = b
   \<and> client (getCurrencies e b) = b
   \<and> client (getTickerTape e b marketSymbol) = b
   \<and> client (getMarketSummaries e b) = b
   \<and> client (getMarketSummary e b marketSymbol) = b
   \<and> client (getOrderBook e b params) = b
   \<and> client (getMarketHistory e b marketSymbol) = b
   \<and> client (placeLimitBuy e now b params) = b
   \<and> client (placeLimitSell e now b params) = b
   \<and> client (cancelOrder e now b orderId) = b
   \<and> client (getOpenOrders e now b market) = b
   \<and> client (getAccountBalances e now b) = b
   \<and> client (getBalance e now b currencyId) = b
   \<and> client (getDepositAddress e now b currencyId) = b
   \<and> client (withdrawCrypto e now b params) = b
   \<and> client (getOrder e now b orderId) = b
   \<and> client (getOrderHistory e now b market) = b
   \<and> client (getWithdrawalHistory e now b currency) = b
   \<and> client (getDepositHistory e now b currency) = b"
proof -
  have pub: "client (forward b (bittrex_getPublicEndpoint e (rawAgent b) ep q (configOverride b))) = b"
    for ep q
    by (simp add: client_forward bittrex_public_requests)
  have priv: "client (forward b (getPrivateEndpoint e now (rawAgent b) ep q (configOverride b))) = b"
    for ep q
    by (simp add: client_forward client_getPrivateEndpoint)
  have ob: "client (getOrderBook e b params) = b"
    by (simp add: getOrderBook_def pub split: option.splits)
  show ?thesis
    unfolding getMarkets_def getCurrencies_def getTickerTape_def getMarketSummaries_def
      getMarketSummary_def getMarketHistory_def placeLimitBuy_def placeLimitSell_def
      cancelOrder_def getOpenOrders_def getAccountBalances_def getBalance_def
      getDepositAddress_def withdrawCrypto_def getOrder_def getOrderHistory_def
      getWithdrawalHistory_def getDepositHistory_def
    by (simp add: pub priv ob gemini_public_requests bittrex_public_requests
          client_postToPrivateEndpoint client_getPrivateEndpoint upgrade_def client_upgrade_def
          isUpgraded_def)
qed

section \<open>The request configuration\<close>

text \<open>
  C8. The request configuration is meant to be the built-in defaults overlaid with the
  per-call override and then with the computed fields, so that a \<open>configOverride\<close>
  supplying \<open>timeout\<close> or \<open>headers\<close> takes effect on the issued Gemini request. Both
  Gemini dispatchers merge the override into \<open>config\<close> and then read \<open>config.version\<close>
  only; \<open>config\<close> never reaches the request. Evaluated with the override
  \<open>{ timeout: 5, headers: { 'X-Foo': 'bar' } }\<close>: the public and the private Gemini request
  keep the timeout 10000 and the built-in headers (with the three signature headers on
  the private one), while the Bittrex dispatcher, which spreads \<open>config\<close> into the
  request, issues the timeout 5 and the override's headers.
\<close>

theorem gemini_request_ignores_configOverride:
  "requests (gemini_getPublicEndpoint (stand_in (answering (JStr ''ok''))) (gemini_getClient None)
      ''symbols'' JUndefined
      (JObj [(''timeout'', JNum 5), (''headers'', JObj [(''X-Foo'', JStr ''bar'')])])) =
     [[(''baseURL'', JStr ''https://api.gemini.com''),
       (''headers'', JObj
          [(''Cache-Control'', JStr ''no-cache''),
           (''Content-Length'', JNum 0),
           (''Content-Type'', JStr ''text/plain''),
           (''User-Agent'', JStr ''Gemini API Client (gemini-api node package)'')]),
       (''method'', JStr ''GET''),
       (''timeout'', JNum 10000),
       (''url'', JStr ''v1/symbols?'')]]
   \<and> requests (postToPrivateEndpoint (stand_in (answering (JStr ''ok''))) 2
        (upgrade (gemini_getClient None) keys0) ''balances'' JUndefined
        (JObj [(''timeout'', JNum 5), (''headers'', JObj [(''X-Foo'', JStr ''bar'')])])) =
     [[(''baseURL'', JStr ''https://api.gemini.com''),
       (''headers'', JObj
          [(''Cache-Control'', JStr ''no-cache''),
           (''Content-Length'', JNum 0),
           (''Content-Type'', JStr ''text/plain''),
           (''User-Agent'', JStr ''Gemini API Client (gemini-api node package)''),
           (''X-GEMINI-APIKEY'', JStr ''k''),
           (''X-GEMINI-PAYLOAD'', JStr ''b64({nonce=2&request=/v1/balances})''),
           (''X-GEMINI-SIGNATURE'', JStr ''hmac384(s,b64({nonce=2&request=/v1/balances}))'')]),
       (''method'', JStr ''POST''),
       (''timeout'', JNum 10000),
       (''url'', JStr ''/v1/balances''),
       (''data'', JUndefined)]]
   \<and> requests (bittrex_getPublicEndpoint (stand_in (answering (JStr ''ok''))) (getRawAgent None)
        ''public/getmarkets'' JNull
        (JObj [(''timeout'', JNum 5), (''headers'', JObj [(''X-Foo'', JStr ''bar'')])])) =
     [[(''baseURL'', JStr ''https://bittrex.com/api''),
       (''headers'', JObj [(''X-Foo'', JStr ''bar'')]),
       (''method'', JStr ''GET''),
       (''timeout'', JNum 5),
       (''url'', JStr ''v1.1/public/getmarkets?''),
       (''rootUrl'', JStr ''https://bittrex.com/api''),
       (''version'', JStr ''v1.1'')]]"
proof -
  let ?cfg = "JObj [(''timeout'', JNum 5), (''headers'', JObj [(''X-Foo'', JStr ''bar'')])]"
  let ?e = "stand_in (answering (JStr ''ok''))"
  have gcfg: "gemini_config ?cfg =
      [(''rootUrl'', JStr ''https://api.gemini.com''), (''timeout'', JNum 5),
       (''version'', JStr ''v1''), (''headers'', JObj [(''X-Foo'', JStr ''bar'')])]"
    by (simp add: gemini_config_def gemini_defaultConfig_def run)
  have bcfg: "bittrex_config ?cfg =
      [(''rootUrl'', JStr ''https://bittrex.com/api''), (''timeout'', JNum 5),
       (''version'', JStr ''v1.1''), (''headers'', JObj [(''X-Foo'', JStr ''bar'')])]"
    by (simp add: bittrex_config_def bittrex_defaultConfig_def run)
  have q: "qs_stringify ?e JUndefined = []" "qs_stringify ?e JNull = []"
    by (simp_all add: stand_in_def plain_query_def)
  have pub: "gemini_getPublicEndpoint_agentConfig ?e ''symbols'' JUndefined ?cfg =
     [(''baseURL'', JStr ''https://api.gemini.com''),
      (''headers'', JObj
         [(''Cache-Control'', JStr ''no-cache''),
          (''Content-Length'', JNum 0),
          (''Content-Type'', JStr ''text/plain''),
          (''User-Agent'', JStr ''Gemini API Client (gemini-api node package)'')]),
      (''method'', JStr ''GET''),
      (''timeout'', JNum 10000),
      (''url'', JStr ''v1/symbols?'')]"
    unfolding gemini_public_request gcfg q
    by (simp add: gemini_defaultAgentConfig_value lookup_prop_def)
  have uri: "postToPrivateEndpoint_uri ''balances'' ?cfg = ''/v1/balances''"
    unfolding postToPrivateEndpoint_uri_def gcfg by (simp add: lookup_prop_def)
  have body: "gemini_signMessage_body 2 ''/v1/balances'' JUndefined =
                [(''nonce'', JStr ''2''), (''request'', JStr ''/v1/balances'')]"
    by (simp add: gemini_signMessage_body_def run)
  have sig: "postToPrivateEndpoint_signatureData ?e 2 keys0 ''balances'' JUndefined ?cfg =
      [(''payload'', JStr ''b64({nonce=2&request=/v1/balances})''),
       (''digest'', JStr ''hmac384(s,b64({nonce=2&request=/v1/balances}))'')]"
    unfolding postToPrivateEndpoint_signatureData_def uri gemini_signMessage_def Let_def body
    by (simp add: stand_in_def plain_query_def tagged_hmac_def keys0_def)
  have priv: "postToPrivateEndpoint_agentConfig ?e 2 keys0 ''balances'' JUndefined ?cfg =
     [(''baseURL'', JStr ''https://api.gemini.com''),
      (''headers'', JObj
         [(''Cache-Control'', JStr ''no-cache''),
          (''Content-Length'', JNum 0),
          (''Content-Type'', JStr ''text/plain''),
          (''User-Agent'', JStr ''Gemini API Client (gemini-api node package)''),
          (''X-GEMINI-APIKEY'', JStr ''k''),
          (''X-GEMINI-PAYLOAD'', JStr ''b64({nonce=2&request=/v1/balances})''),
          (''X-GEMINI-SIGNATURE'', JStr ''hmac384(s,b64({nonce=2&request=/v1/balances}))'')]),
      (''method'', JStr ''POST''),
      (''timeout'', JNum 10000),
      (''url'', JStr ''/v1/balances''),
      (''data'', JUndefined)]"
    unfolding gemini_private_request gemini_private_headers sig uri
    by (simp add: lookup_prop_def keys0_def JSON_stringify_val_def)
  have base: "spread [] (JObj bittrex_publicAgentConfig) =
      [(''baseURL'', JStr ''https://bittrex.com/api''),
       (''headers'', JObj
         [(''Cache-Control'', JStr ''no-cache''),
          (''Content-Type'', JStr ''application/json''),
          (''User-Agent'', JStr ''Bittrex API Client (bittrex-cryptoexchange-api node package)'')]),
       (''method'', JStr ''GET''),
       (''timeout'', JNum 3000)]"
    by (simp add: bittrex_publicAgentConfig_def bittrex_defaultAgentConfig_def
          bittrex_defaultConfig_def run)
  have bpub: "bittrex_getPublicEndpoint_agentConfig ?e ''public/getmarkets'' JNull ?cfg =
     [(''baseURL'', JStr ''https://bittrex.com/api''),
      (''headers'', JObj [(''X-Foo'', JStr ''bar'')]),
      (''method'', JStr ''GET''),
      (''timeout'', JNum 5),
      (''url'', JStr ''v1.1/public/getmarkets?''),
      (''rootUrl'', JStr ''https://bittrex.com/api''),
      (''version'', JStr ''v1.1'')]"
    unfolding bittrex_getPublicEndpoint_agentConfig_def Let_def bcfg base q
    by (simp add: run)
  have up: "auth (upgrade (gemini_getClient None) keys0) = Some keys0"
    by (simp add: upgrade_def)
  from postToPrivateEndpoint_upgraded [OF up] show ?thesis
    by (simp add: gemini_public_requests bittrex_public_requests pub priv bpub)
qed

section \<open>The order book's default type\<close>

text \<open>
  C9, as the code has it. \<open>getOrderBook\<close> forwards to \<open>public/getorderbook\<close> the caller's
  parameters with \<open>type\<close> set: to \<open>both\<close> when \<open>params\<close> has no \<open>type\<close> (or a falsy one:
  \<open>undefined\<close>, \<open>null\<close>, the empty string), and to the supplied value, unchanged, when it
  is a non-empty string. The other parameters pass through, and the request's URL is
  the version, the endpoint and the encoding of these parameters (when the client's
  configuration does not set \<open>url\<close> itself).
\<close>

theorem getOrderBook_type_default:
  assumes "distinct (map fst ps)"
  shows "getOrderBook e c (JObj ps) =
           forward c (bittrex_getPublicEndpoint e (rawAgent c) ''public/getorderbook''
             (JObj (getOrderBook_scrubbedParams (JObj ps) (lookup_prop ps ''type'')))
             (configOverride c))
       \<and> requests (getOrderBook e c (JObj ps)) =
           [bittrex_getPublicEndpoint_agentConfig e ''public/getorderbook''
              (JObj (getOrderBook_scrubbedParams (JObj ps) (lookup_prop ps ''type'')))
              (configOverride c)]
       \<and> map_of (getOrderBook_scrubbedParams (JObj ps) (lookup_prop ps ''type'')) =
           (map_of ps)(''type'' \<mapsto>
              (if truthy (lookup_prop ps ''type'') then lookup_prop ps ''type'' else JStr ''both''))
       \<and> (map_of ps ''type'' = None \<longrightarrow>
            lookup_prop (getOrderBook_scrubbedParams (JObj ps) (lookup_prop ps ''type'')) ''type'' =
              JStr ''both'')
       \<and> (\<forall>s. map_of ps ''type'' = Some (JStr s) \<and> s \<noteq> [] \<longrightarrow>
            lookup_prop (getOrderBook_scrubbedParams (JObj ps) (lookup_prop ps ''type'')) ''type'' =
              JStr s)
       \<and> (''url'' \<notin> fst ` set (own_props (configOverride c)) \<longrightarrow>
            lookup_prop
              (bittrex_getPublicEndpoint_agentConfig e ''public/getorderbook''
                 (JObj (getOrderBook_scrubbedParams (JObj ps) (lookup_prop ps ''type'')))
                 (configOverride c)) ''url'' =
            JStr (js_toString (lookup_prop (bittrex_config (configOverride c)) ''version'')
                  @ ''/public/getorderbook?''
                  @ qs_stringify e
                      (JObj (getOrderBook_scrubbedParams (JObj ps) (lookup_prop ps ''type'')))))"
proof -
  let ?sp = "getOrderBook_scrubbedParams (JObj ps) (lookup_prop ps ''type'')"
  have call: "getOrderBook e c (JObj ps) =
           forward c (bittrex_getPublicEndpoint e (rawAgent c) ''public/getorderbook''
             (JObj ?sp) (configOverride c))"
    by (simp add: getOrderBook_def)
  then have reqs: "requests (getOrderBook e c (JObj ps)) =
           [bittrex_getPublicEndpoint_agentConfig e ''public/getorderbook'' (JObj ?sp)
              (configOverride c)]"
    by (simp add: forward_requests bittrex_public_requests)
  have fields: "map_of ?sp =
           (map_of ps)(''type'' \<mapsto>
              (if truthy (lookup_prop ps ''type'') then lookup_prop ps ''type'' else JStr ''both''))"
    using assms by (simp add: getOrderBook_scrubbedParams_def map_of_set_prop copy_distinct)
  have omitted: "map_of ps ''type'' = None \<longrightarrow> lookup_prop ?sp ''type'' = JStr ''both''"
    by (simp add: getOrderBook_scrubbedParams_def lookup_prop_def map_of_set_prop)
  have supplied: "\<forall>s. map_of ps ''type'' = Some (JStr s) \<and> s \<noteq> [] \<longrightarrow>
            lookup_prop ?sp ''type'' = JStr s"
    by (simp add: getOrderBook_scrubbedParams_def lookup_prop_def map_of_set_prop)
  have url: "''url'' \<notin> fst ` set (own_props (configOverride c)) \<longrightarrow>
            lookup_prop
              (bittrex_getPublicEndpoint_agentConfig e ''public/getorderbook'' (JObj ?sp)
                 (configOverride c)) ''url'' =
            JStr (js_toString (lookup_prop (bittrex_config (configOverride c)) ''version'')
                  @ ''/public/getorderbook?'' @ qs_stringify e (JObj ?sp))"
    by (simp add: bittrex_public_url)
  from call reqs fields omitted supplied url show ?thesis
    by blast
qed

theorem getOrderBook_type_default_witness:
  "distinct (map fst [(''market'', JStr ''BTC-LTC'')])
   \<and> map_of [(''market'', JStr ''BTC-LTC'')] ''type'' = None
   \<and> ''url'' \<notin> fst ` set (own_props (configOverride (bittrex_getClient None JUndefined)))
   \<and> requests (getOrderBook (stand_in (answering (JStr ''ok'')))
         (bittrex_getClient None JUndefined) (JObj [(''market'', JStr ''BTC-LTC'')])) =
       [bittrex_getPublicEndpoint_agentConfig (stand_in (answering (JStr ''ok'')))
          ''public/getorderbook''
          (JObj [(''market'', JStr ''BTC-LTC''), (''type'', JStr ''both'')]) JNull]
   \<and> lookup_prop
         (bittrex_getPublicEndpoint_agentConfig (stand_in (answering (JStr ''ok'')))
            ''public/getorderbook''
            (JObj [(''market'', JStr ''BTC-LTC''), (''type'', JStr ''both'')]) JNull) ''url'' =
       JStr ''v1.1/public/getorderbook?market=BTC-LTC&type=both''
   \<and> distinct (map fst [(''type'', JStr ''buy''), (''market'', JStr ''BTC-LTC'')])
   \<and> map_of [(''type'', JStr ''buy''), (''market'', JStr ''BTC-LTC'')] ''type'' = Some (JStr ''buy'')
   \<and> requests (getOrderBook (stand_in (answering (JStr ''ok'')))
         (bittrex_getClient None JUndefined)
         (JObj [(''type'', JStr ''buy''), (''market'', JStr ''BTC-LTC'')])) =
       [bittrex_getPublicEndpoint_agentConfig (stand_in (answering (JStr ''ok'')))
          ''public/getorderbook''
          (JObj [(''type'', JStr ''buy''), (''market'', JStr ''BTC-LTC'')]) JNull]
   \<and> lookup_prop
         (bittrex_getPublicEndpoint_agentConfig (stand_in (answering (JStr ''ok'')))
            ''public/getorderbook''
            (JObj [(''type'', JStr ''buy''), (''market'', JStr ''BTC-LTC'')]) JNull) ''url'' =
       JStr ''v1.1/public/getorderbook?type=buy&market=BTC-LTC''"
proof -
  let ?ps = "[(''market'', JStr ''BTC-LTC'')]"
  let ?qs = "[(''type'', JStr ''buy''), (''market'', JStr ''BTC-LTC'')]"
  let ?e = "stand_in (answering (JStr ''ok''))"
  let ?c = "bittrex_getClient None JUndefined"
  have d: "distinct (map fst ?ps)" and n: "map_of ?ps ''type'' = None"
    by simp_all
  have d': "distinct (map fst ?qs)" and n': "map_of ?qs ''type'' = Some (JStr ''buy'')"
    by simp_all
  have cfg: "configOverride ?c = JNull"
    by (simp add: bittrex_getClient_def)
  have u: "''url'' \<notin> fst ` set (own_props (configOverride ?c))"
    by (simp add: cfg)
  have sp: "getOrderBook_scrubbedParams (JObj ?ps) (lookup_prop ?ps ''type'') =
              [(''market'', JStr ''BTC-LTC''), (''type'', JStr ''both'')]"
    by (simp add: getOrderBook_scrubbedParams_def run)
  have sp': "getOrderBook_scrubbedParams (JObj ?qs) (lookup_prop ?qs ''type'') =
              [(''type'', JStr ''buy''), (''market'', JStr ''BTC-LTC'')]"
    by (simp add: getOrderBook_scrubbedParams_def run)
  have v: "js_toString (lookup_prop (bittrex_config JNull) ''version'') = ''v1.1''"
    by (simp add: bittrex_config_def bittrex_defaultConfig_def run)
  have q: "qs_stringify ?e (JObj [(''market'', JStr ''BTC-LTC''), (''type'', JStr ''both'')]) =
             ''market=BTC-LTC&type=both''"
    by (simp add: stand_in_def plain_query_def)
  have q': "qs_stringify ?e (JObj [(''type'', JStr ''buy''), (''market'', JStr ''BTC-LTC'')]) =
             ''type=buy&market=BTC-LTC''"
    by (simp add: stand_in_def plain_query_def)
  from getOrderBook_type_default [OF d, of ?e ?c] u
  have "requests (getOrderBook ?e ?c (JObj ?ps)) =
          [bittrex_getPublicEndpoint_agentConfig ?e ''public/getorderbook''
             (JObj (getOrderBook_scrubbedParams (JObj ?ps) (lookup_prop ?ps ''type'')))
             (configOverride ?c)]
        \<and> lookup_prop
              (bittrex_getPublicEndpoint_agentConfig ?e ''public/getorderbook''
                 (JObj (getOrderBook_scrubbedParams (JObj ?ps) (lookup_prop ?ps ''type'')))
                 (configOverride ?c)) ''url'' =
            JStr (js_toString (lookup_prop (bittrex_config (configOverride ?c)) ''version'')
                  @ ''/public/getorderbook?''
                  @ qs_stringify ?e
                      (JObj (getOrderBook_scrubbedParams (JObj ?ps) (lookup_prop ?ps ''type''))))"
    by blast
  then have omitted:
    "requests (getOrderBook ?e ?c (JObj ?ps)) =
       [bittrex_getPublicEndpoint_agentConfig ?e ''public/getorderbook''
          (JObj [(''market'', JStr ''BTC-LTC''), (''type'', JStr ''both'')]) JNull]
     \<and> lookup_prop
           (bittrex_getPublicEndpoint_agentConfig ?e ''public/getorderbook''
              (JObj [(''market'', JStr ''BTC-LTC''), (''type'', JStr ''both'')]) JNull) ''url'' =
         JStr ''v1.1/public/getorderbook?market=BTC-LTC&type=both''"
    by (simp add: sp cfg v q)
  from getOrderBook_type_default [OF d', of ?e ?c] u
  have "requests (getOrderBook ?e ?c (JObj ?qs)) =
          [bittrex_getPublicEndpoint_agentConfig ?e ''public/getorderbook''
             (JObj (getOrderBook_scrubbedParams (JObj ?qs) (lookup_prop ?qs ''type'')))
             (configOverride ?c)]
        \<and> lookup_prop
              (bittrex_getPublicEndpoint_agentConfig ?e ''public/getorderbook''
                 (JObj (getOrderBook_scrubbedParams (JObj ?qs) (lookup_prop ?qs ''type'')))
                 (configOverride ?c)) ''url'' =
            JStr (js_toString (lookup_prop (bittrex_config (configOverride ?c)) ''version'')
                  @ ''/public/getorderbook?''
                  @ qs_stringify ?e
                      (JObj (getOrderBook_scrubbedParams (JObj ?qs) (lookup_prop ?qs ''type''))))"
    by blast
  then have supplied:
    "requests (getOrderBook ?e ?c (JObj ?qs)) =
       [bittrex_getPublicEndpoint_agentConfig ?e ''public/getorderbook''
          (JObj [(''type'', JStr ''buy''), (''market'', JStr ''BTC-LTC'')]) JNull]
     \<and> lookup_prop
           (bittrex_getPublicEndpoint_agentConfig ?e ''public/getorderbook''
              (JObj [(''type'', JStr ''buy''), (''market'', JStr ''BTC-LTC'')]) JNull) ''url'' =
         JStr ''v1.1/public/getorderbook?type=buy&market=BTC-LTC''"
    by (simp add: sp' cfg v q')
  from d n u omitted d' n' supplied show ?thesis
    by blast
qed

text \<open>
  The claim as stated fails: a supplied \<open>type\<close> that is the empty string is not used
  unchanged; the request carries \<open>type=both\<close>.
\<close>

theorem getOrderBook_empty_type_replaced:
  "requests (getOrderBook (stand_in (answering (JStr ''ok'')))
      (bittrex_getClient None JUndefined)
      (JObj [(''market'', JStr ''BTC-LTC''), (''type'', JStr '''')])) =
     [bittrex_getPublicEndpoint_agentConfig (stand_in (answering (JStr ''ok'')))
        ''public/getorderbook''
        (JObj [(''market'', JStr ''BTC-LTC''), (''type'', JStr ''both'')]) JNull]
   \<and> lookup_prop
         (bittrex_getPublicEndpoint_agentConfig (stand_in (answering (JStr ''ok'')))
            ''public/getorderbook''
            (JObj [(''market'', JStr ''BTC-LTC''), (''type'', JStr ''both'')]) JNull) ''url'' =
       JStr ''v1.1/public/getorderbook?market=BTC-LTC&type=both''"
proof -
  let ?ps = "[(''market'', JStr ''BTC-LTC''), (''type'', JStr '''')]"
  let ?e = "stand_in (answering (JStr ''ok''))"
  let ?c = "bittrex_getClient None JUndefined"
  have cfg: "configOverride ?c = JNull"
    by (simp add: bittrex_getClient_def)
  have u: "''url'' \<notin> fst ` set (own_props JNull)"
    by simp
  have sp: "getOrderBook_scrubbedParams (JObj ?ps) (lookup_prop ?ps ''type'') =
              [(''market'', JStr ''BTC-LTC''), (''type'', JStr ''both'')]"
    by (simp add: getOrderBook_scrubbedParams_def run)
  have v: "js_toString (lookup_prop (bittrex_config JNull) ''version'') = ''v1.1''"
    by (simp add: bittrex_config_def bittrex_defaultConfig_def run)
  have q: "qs_stringify ?e (JObj [(''market'', JStr ''BTC-LTC''), (''type'', JStr ''both'')]) =
             ''market=BTC-LTC&type=both''"
    by (simp add: stand_in_def plain_query_def)
  have "requests (getOrderBook ?e ?c (JObj ?ps)) =
          [bittrex_getPublicEndpoint_agentConfig ?e ''public/getorderbook''
             (JObj [(''market'', JStr ''BTC-LTC''), (''type'', JStr ''both'')]) JNull]"
    by (simp add: getOrderBook_def sp cfg forward_requests bittrex_public_requests)
  then show ?thesis
    using bittrex_public_url [OF u, of ?e "''public/getorderbook''"
            "JObj [(''market'', JStr ''BTC-LTC''), (''type'', JStr ''both'')]"]
    by (simp add: v q)
qed

section \<open>Security parameters of a Bittrex private call\<close>

text \<open>
  C10. In a Bittrex private call on an upgraded client the parameters that are signed
  are the caller's, with \<open>apiKey\<close> replaced by the stored public key and \<open>nonce\<close> by
  the clock value times 1000: a caller's own \<open>apiKey\<close> or \<open>nonce\<close> is overwritten, every
  other parameter is passed through, and the signature is computed over the URI with
  these parameters.
\<close>

theorem getPrivateEndpoint_scrubs_security_params:
  assumes "auth c = Some a" and "wf_obj params"
  shows "requests (getPrivateEndpoint e now c endpoint params cfg) =
           [getPrivateEndpoint_agentConfig e now a endpoint params cfg]
       \<and> getPrivateEndpoint_signatureData e now a endpoint params cfg =
           bittrex_signMessage e (getPrivateEndpoint_uri endpoint cfg)
             (JObj (getPrivateEndpoint_scrubbedParams now a params)) (privateKey a)
       \<and> lookup_prop (getPrivateEndpoint_signatureData e now a endpoint params cfg) ''fullUrl'' =
           JStr (getPrivateEndpoint_uri endpoint cfg @ ''?''
                 @ qs_stringify e (JObj (getPrivateEndpoint_scrubbedParams now a params)))
       \<and> map_of (getPrivateEndpoint_scrubbedParams now a params) =
           (map_of (own_props params))
             (''apiKey'' \<mapsto> JStr (publicKey a), ''nonce'' \<mapsto> JNum (now * 1000))"
proof -
  have "map_of (getPrivateEndpoint_scrubbedParams now a params) =
          (map_of (own_props params))
            (''apiKey'' \<mapsto> JStr (publicKey a), ''nonce'' \<mapsto> JNum (now * 1000))"
    using assms(2)
    by (simp add: getPrivateEndpoint_scrubbedParams_def getPrivateEndpoint_securityParams_def
          map_of_spread wf_obj_def fun_eq_iff map_add_def)
  with assms(1) show ?thesis
    by (simp add: getPrivateEndpoint_upgraded getPrivateEndpoint_signatureData_def
          bittrex_signMessage_def Let_def lookup_prop_def)
qed

theorem getPrivateEndpoint_scrubs_security_params_witness:
  "auth (upgrade (getRawAgent None) keys0) = Some keys0
   \<and> wf_obj (JObj [(''nonce'', JNum 7), (''apiKey'', JStr ''mallory''), (''market'', JStr ''BTC-LTC'')])
   \<and> getPrivateEndpoint_scrubbedParams 2 keys0
        (JObj [(''nonce'', JNum 7), (''apiKey'', JStr ''mallory''), (''market'', JStr ''BTC-LTC'')]) =
      [(''nonce'', JNum 2000), (''apiKey'', JStr ''k''), (''market'', JStr ''BTC-LTC'')]
   \<and> lookup_prop (getPrivateEndpoint_signatureData (stand_in (answering (JStr ''ok''))) 2 keys0
        ''market/getopenorders''
        (JObj [(''nonce'', JNum 7), (''apiKey'', JStr ''mallory''), (''market'', JStr ''BTC-LTC'')])
        JNull) ''fullUrl'' =
      JStr ''https://bittrex.com/api/v1.1/market/getopenorders?nonce=2000&apiKey=k&market=BTC-LTC''"
proof -
  let ?p = "JObj [(''nonce'', JNum 7), (''apiKey'', JStr ''mallory''), (''market'', JStr ''BTC-LTC'')]"
  have a: "auth (upgrade (getRawAgent None) keys0) = Some keys0"
    by (simp add: upgrade_def getRawAgent_def)
  have w: "wf_obj ?p"
    by (simp add: wf_obj_def)
  have sp: "getPrivateEndpoint_scrubbedParams 2 keys0 ?p =
      [(''nonce'', JNum 2000), (''apiKey'', JStr ''k''), (''market'', JStr ''BTC-LTC'')]"
    by (simp add: getPrivateEndpoint_scrubbedParams_def getPrivateEndpoint_securityParams_def
          keys0_def run)
  have uri: "getPrivateEndpoint_uri ''market/getopenorders'' JNull =
      ''https://bittrex.com/api/v1.1/market/getopenorders''"
    by (simp add: getPrivateEndpoint_uri_def bittrex_config_def bittrex_defaultConfig_def run)
  from getPrivateEndpoint_scrubs_security_params [OF a w,
      of "stand_in (answering (JStr ''ok''))" 2 "''market/getopenorders''" JNull]
  have "lookup_prop (getPrivateEndpoint_signatureData (stand_in (answering (JStr ''ok''))) 2 keys0
          ''market/getopenorders'' ?p JNull) ''fullUrl'' =
        JStr (getPrivateEndpoint_uri ''market/getopenorders'' JNull @ ''?''
              @ qs_stringify (stand_in (answering (JStr ''ok'')))
                  (JObj (getPrivateEndpoint_scrubbedParams 2 keys0 ?p)))"
    by blast
  also have "\<dots> = JStr ''https://bittrex.com/api/v1.1/market/getopenorders?nonce=2000&apiKey=k&market=BTC-LTC''"
    by (simp add: sp uri stand_in_def plain_query_def num_toString_def dec_digit dec_more)
  finally show ?thesis
    using a w sp by simp
qed

end
